theory Spec2Isabelle
  imports Complex_Main "HOL-Library.AList"
begin

section \<open>Values, exceptions and the upstream\<close>

text \<open>
  Parsed JSON, as \<^verbatim>\<open>response.json()\<close> returns it.  A number is the real value of a
  Python float (an IEEE-754 double) or of a Python integer of magnitude at most \<open>2 ^ 53\<close>;
  division and subtraction round their exact result to the nearest double (see the section
  on doubles).  Infinities, NaN and larger integers are not modelled.  The clock, the
  timestamps and the float literals of the source (1.08, 1.1) are taken at their decimal
  value.  An object is the association list of its (distinct) keys.
\<close>

datatype json =
    JNull
  | JBool bool
  | JNum real
  | JStr string
  | JArr "json list"
  | JObj "(string \<times> json) list"

text \<open>
  Exceptions are values.  \<open>RequestException\<close> is what \<^verbatim>\<open>session.get\<close> raises
  (connection error, timeout), \<open>HTTPError\<close> what \<^verbatim>\<open>raise_for_status\<close> raises (a subclass
  of \<^verbatim>\<open>RequestException\<close>).  \<open>RequestFailed n e\<close> is
  \<^verbatim>\<open>Exception(f"Request failed after {n} attempts: {str(e)}")\<close>, \<open>MaxRetriesExceeded\<close> is
  \<^verbatim>\<open>Exception("Max retries exceeded")\<close>, \<open>StorageError\<close> is a statement the database
  rejects, and \<open>Failed ctx e\<close> is the re-raise \<^verbatim>\<open>Exception(f"{ctx}: {str(e)}")\<close> of the
  client's public methods.
\<close>

datatype exn =
    RequestException string
  | HTTPError int
  | KeyError json
  | IndexError
  | TypeError
  | AttributeError
  | ZeroDivisionError
  | OverflowError
  | ValueError string
  | RequestFailed nat exn
  | MaxRetriesExceeded
  | StorageError
  | Failed string exn

record request =
  url :: string
  params :: "(string \<times> json) list"
  timeout :: nat

text \<open>
  What one \<^verbatim>\<open>session.get\<close> does: it raises, or it returns a status code and a body.
  The body of a response is taken to parse as JSON.
\<close>

datatype response = Raises string | Response int json

text \<open>
  The upstream is a stub: it answers the request that is sent as the \<open>i\<close>-th one
  (counting from 0).  The clock is an injected one: only \<^verbatim>\<open>time.sleep\<close> advances it.
  The trace records every sleep, tagged with the place that slept, and every request sent.
\<close>

type_synonym upstream = "nat \<Rightarrow> request \<Rightarrow> response"

datatype event = RateLimitSleep real | BackoffSleep real | Get request

record api_state =
  clock :: real
  last_request_time :: real
  sent :: nat
  trace :: "event list"

definition base_url :: string where
  "base_url = ''https://api.coingecko.com/api/v3''"

definition min_request_interval :: real where
  "min_request_interval = 11 / 10"

definition init_api :: "real \<Rightarrow> api_state" where
  "init_api t = \<lparr>clock = t, last_request_time = 0, sent = 0, trace = []\<rparr>"

section \<open>Rate limiter and retrying transport (crypto\_api.py)\<close>

definition sleep :: "(real \<Rightarrow> event) \<Rightarrow> real \<Rightarrow> api_state \<Rightarrow> api_state" where
  "sleep tag d s = s\<lparr>clock := clock s + d, trace := trace s @ [tag d]\<rparr>"

definition rate_limit_delay :: "api_state \<Rightarrow> api_state" where
  "rate_limit_delay s =
     (let current_time = clock s;
          time_since_last = current_time - last_request_time s;
          s1 = (if time_since_last < min_request_interval
                then sleep RateLimitSleep (min_request_interval - time_since_last) s
                else s)
      in s1\<lparr>last_request_time := clock s1\<rparr>)"

definition session_get :: "upstream \<Rightarrow> request \<Rightarrow> api_state \<Rightarrow> response \<times> api_state" where
  "session_get up req s =
     (up (sent s) req, s\<lparr>sent := Suc (sent s), trace := trace s @ [Get req]\<rparr>)"

text \<open>\<^verbatim>\<open>response.raise_for_status()\<close>: a 4xx or 5xx status raises \<open>HTTPError\<close>.\<close>

definition raise_for_status :: "int \<Rightarrow> exn option" where
  "raise_for_status code = (if 400 \<le> code \<and> code < 600 then Some (HTTPError code) else None)"

text \<open>
  The body of \<^verbatim>\<open>for attempt in range(max_retries)\<close>, by recursion over the attempts
  that are left; falling off the loop raises \<open>MaxRetriesExceeded\<close>.
\<close>

fun retry_attempts ::
  "upstream \<Rightarrow> request \<Rightarrow> nat \<Rightarrow> nat list \<Rightarrow> api_state \<Rightarrow> (exn + json) \<times> api_state" where
  "retry_attempts up req max_retries [] s = (Inl MaxRetriesExceeded, s)"
| "retry_attempts up req max_retries (attempt # rest) s =
     (let s1 = rate_limit_delay s;
          (resp, s2) = session_get up req s1;
          except = (\<lambda>e. if int attempt = int max_retries - 1
                        then (Inl (RequestFailed max_retries e), s2)
                        else retry_attempts up req max_retries rest
                               (sleep BackoffSleep (2 ^ attempt) s2))
      in case resp of
           Raises msg \<Rightarrow> except (RequestException msg)
         | Response code body \<Rightarrow>
             if code = 429
             then retry_attempts up req max_retries rest
                    (sleep BackoffSleep (2 ^ attempt * 5) s2)
             else (case raise_for_status code of
                     Some e \<Rightarrow> except e
                   | None \<Rightarrow> (Inr body, s2)))"

definition make_request_with_retry ::
  "upstream \<Rightarrow> string \<Rightarrow> (string \<times> json) list \<Rightarrow> nat \<Rightarrow> api_state \<Rightarrow> (exn + json) \<times> api_state" where
  "make_request_with_retry up u ps max_retries s =
     retry_attempts up \<lparr>url = u, params = ps, timeout = 15\<rparr> max_retries [0..<max_retries] s"

section \<open>IEEE-754 doubles\<close>

text \<open>
  The arithmetic of Python's \<^verbatim>\<open>float\<close>: the exact result of an operation is rounded to
  the nearest number with 53 significant bits, ties to the even one, with subnormal
  numbers below \<open>2 ^ (- 1022)\<close>.  \<open>bit_length\<close> is the number of binary digits of a
  positive integer, \<open>binary_exponent x\<close> the \<open>e\<close> with \<open>2 ^ e \<le> x < 2 ^ (e + 1)\<close> for a
  positive \<open>x\<close>.
\<close>

function bit_length :: "int \<Rightarrow> int" where
  "bit_length n = (if n \<le> 0 then 0 else bit_length (n div 2) + 1)"
  by pat_completeness auto
termination
  by (relation "measure nat") auto

declare bit_length.simps [simp del]

definition binary_exponent :: "real \<Rightarrow> int" where
  "binary_exponent x =
     (if 1 \<le> x then bit_length \<lfloor>x\<rfloor> - 1
      else - bit_length (\<lceil>1 / x\<rceil> - 1))"

definition pow2 :: "int \<Rightarrow> real" where
  "pow2 k = (if 0 \<le> k then 2 ^ nat k else 1 / 2 ^ nat (- k))"

definition round_half_even :: "real \<Rightarrow> int" where
  "round_half_even x =
     (let f = \<lfloor>x\<rfloor>; d = x - of_int f
      in if d < 1 / 2 then f
         else if 1 / 2 < d then f + 1
         else if even f then f else f + 1)"

text \<open>
  The double nearest to a positive \<open>a\<close> is \<open>n * 2 ^ (e - 52)\<close> for the pair \<open>(n, e)\<close>
  that \<open>double_parts\<close> gives; it is finite when it is below \<open>2 ^ 1024\<close>.
\<close>

definition double_parts :: "real \<Rightarrow> int \<times> int" where
  "double_parts a =
     (let e = max (binary_exponent a) (- 1022);
          q = pow2 (e - 52)
      in (round_half_even (a / q), e))"

definition round_to_double :: "real \<Rightarrow> real" where
  "round_to_double x =
     (if x = 0 then 0
      else case double_parts \<bar>x\<bar> of (n, e) \<Rightarrow> sgn x * of_int n * pow2 (e - 52))"

definition finite_double :: "real \<Rightarrow> bool" where
  "finite_double x =
     (x = 0 \<or> (case double_parts \<bar>x\<bar> of (n, e) \<Rightarrow> e < 1023 \<or> (e = 1023 \<and> n < 2 ^ 53)))"

section \<open>Python operations on parsed JSON\<close>

definition then_do :: "'e + 'a \<Rightarrow> ('a \<Rightarrow> 'e + 'b) \<Rightarrow> 'e + 'b" where
  "then_do m f = (case m of Inl e \<Rightarrow> Inl e | Inr x \<Rightarrow> f x)"

text \<open>A list comprehension whose element expression may raise: the first exception ends it.\<close>

fun comprehension :: "('a \<Rightarrow> 'e + 'b) \<Rightarrow> 'a list \<Rightarrow> 'e + 'b list" where
  "comprehension f [] = Inr []"
| "comprehension f (x # xs) =
     then_do (f x) (\<lambda>y. then_do (comprehension f xs) (\<lambda>ys. Inr (y # ys)))"

fun substring :: "string \<Rightarrow> string \<Rightarrow> bool" where
  "substring k [] = (k = [])"
| "substring k (c # cs) = (take (length k) (c # cs) = k \<or> substring k cs)"

text \<open>\<^verbatim>\<open>key in x\<close> for a string \<open>key\<close>.\<close>

fun py_contains :: "string \<Rightarrow> json \<Rightarrow> exn + bool" where
  "py_contains key (JObj kvs) = Inr (key \<in> set (map fst kvs))"
| "py_contains key (JArr xs) = Inr (JStr key \<in> set xs)"
| "py_contains key (JStr s) = Inr (substring key s)"
| "py_contains key _ = Inl TypeError"

text \<open>\<^verbatim>\<open>x[key]\<close> for a string \<open>key\<close>.\<close>

fun py_getitem :: "json \<Rightarrow> string \<Rightarrow> exn + json" where
  "py_getitem (JObj kvs) key =
     (case map_of kvs key of None \<Rightarrow> Inl (KeyError (JStr key)) | Some v \<Rightarrow> Inr v)"
| "py_getitem _ key = Inl TypeError"

text \<open>\<^verbatim>\<open>x.get(key, default)\<close>.\<close>

fun py_get :: "json \<Rightarrow> string \<Rightarrow> json \<Rightarrow> exn + json" where
  "py_get (JObj kvs) key dflt = Inr (case map_of kvs key of None \<Rightarrow> dflt | Some v \<Rightarrow> v)"
| "py_get _ key dflt = Inl AttributeError"

text \<open>\<^verbatim>\<open>x[i]\<close> for the literal indices 0 and 1 the program uses.\<close>

fun py_index :: "json \<Rightarrow> nat \<Rightarrow> exn + json" where
  "py_index (JArr xs) i = (if i < length xs then Inr (xs ! i) else Inl IndexError)"
| "py_index (JStr s) i = (if i < length s then Inr (JStr [s ! i]) else Inl IndexError)"
| "py_index (JObj kvs) i = Inl (KeyError (JNum (real i)))"
| "py_index _ i = Inl TypeError"

text \<open>\<^verbatim>\<open>for x in data\<close>.\<close>

fun py_iter :: "json \<Rightarrow> exn + json list" where
  "py_iter (JArr xs) = Inr xs"
| "py_iter (JObj kvs) = Inr (map (\<lambda>kv. JStr (fst kv)) kvs)"
| "py_iter (JStr s) = Inr (map (\<lambda>c. JStr [c]) s)"
| "py_iter _ = Inl TypeError"

text \<open>The number a value is in arithmetic and comparisons (\<^verbatim>\<open>bool\<close> is an \<^verbatim>\<open>int\<close>).\<close>

fun as_num :: "json \<Rightarrow> real option" where
  "as_num (JNum r) = Some r"
| "as_num (JBool b) = Some (if b then 1 else 0)"
| "as_num _ = None"

definition py_gt0 :: "json \<Rightarrow> exn + bool" where
  "py_gt0 x = (case as_num x of None \<Rightarrow> Inl TypeError | Some r \<Rightarrow> Inr (r > 0))"

text \<open>
  \<^verbatim>\<open>a / b\<close> and \<^verbatim>\<open>a - b\<close>.  A result beyond the largest double raises
  \<^verbatim>\<open>OverflowError\<close>, as Python's division of integers does; for floats Python gives
  \<^verbatim>\<open>inf\<close>, which the model does not have.
\<close>

definition py_truediv :: "json \<Rightarrow> json \<Rightarrow> exn + real" where
  "py_truediv a b =
     (case (as_num a, as_num b) of
        (Some x, Some y) \<Rightarrow>
          if y = 0 then Inl ZeroDivisionError
          else if \<not> finite_double (x / y) then Inl OverflowError
          else Inr (round_to_double (x / y))
      | _ \<Rightarrow> Inl TypeError)"

definition py_sub :: "json \<Rightarrow> json \<Rightarrow> exn + real" where
  "py_sub a b =
     (case (as_num a, as_num b) of
        (Some x, Some y) \<Rightarrow>
          if \<not> finite_double (x - y) then Inl OverflowError
          else Inr (round_to_double (x - y))
      | _ \<Rightarrow> Inl TypeError)"

text \<open>
  A value used as a dictionary key: lists and objects are unhashable, and \<^verbatim>\<open>True\<close>,
  \<^verbatim>\<open>False\<close> are the keys 1 and 0.
\<close>

fun py_key :: "json \<Rightarrow> exn + json" where
  "py_key (JArr xs) = Inl TypeError"
| "py_key (JObj kvs) = Inl TypeError"
| "py_key (JBool b) = Inr (JNum (if b then 1 else 0))"
| "py_key k = Inr k"

text \<open>\<^verbatim>\<open>sep.join(xs)\<close>.\<close>

fun join :: "string \<Rightarrow> string list \<Rightarrow> string" where
  "join sep [] = []"
| "join sep [x] = x"
| "join sep (x # y # ys) = x @ sep @ join sep (y # ys)"

section \<open>Naive datetimes\<close>

text \<open>
  A naive \<^verbatim>\<open>datetime\<close> is the number of microseconds of its civil reading since
  1970-01-01 00:00:00, a \<^verbatim>\<open>timedelta\<close> a number of microseconds.  The range limits of
  Python's \<^verbatim>\<open>datetime\<close> (years 1 to 9999) are not modelled.  \<open>tz\<close> is the offset of
  the local zone from UTC in microseconds, taken as constant.
\<close>

type_synonym datetime = int

definition timedelta_minutes :: "int \<Rightarrow> int" where
  "timedelta_minutes m = m * 60000000"

definition timedelta_hours :: "int \<Rightarrow> int" where
  "timedelta_hours h = h * 3600000000"

definition timedelta_days :: "int \<Rightarrow> int" where
  "timedelta_days d = d * 86400000000"

text \<open>\<^verbatim>\<open>datetime.fromtimestamp(x)\<close> and \<^verbatim>\<open>d.timestamp()\<close> for a naive \<open>d\<close>.\<close>

definition dt_fromtimestamp :: "int \<Rightarrow> real \<Rightarrow> datetime" where
  "dt_fromtimestamp tz x = round (x * 1000000) + tz"

definition dt_timestamp :: "int \<Rightarrow> datetime \<Rightarrow> real" where
  "dt_timestamp tz d = real_of_int (d - tz) / 1000000"

text \<open>
  The calendar, as CPython's \<^verbatim>\<open>datetime\<close> computes it: \<open>ymd2ord\<close> is the ordinal of a
  date (1 is 0001-01-01, 719163 is 1970-01-01) and \<open>ord2ymd\<close> its inverse.
\<close>

definition is_leap :: "int \<Rightarrow> bool" where
  "is_leap y = (y mod 4 = 0 \<and> (y mod 100 \<noteq> 0 \<or> y mod 400 = 0))"

definition days_in_month :: "int \<Rightarrow> int \<Rightarrow> int" where
  "days_in_month y m =
     (if m = 2 \<and> is_leap y then 29
      else [31, 28, 31, 30, 31, 30, 31, 31, 30, 31, 30, 31] ! nat (m - 1))"

definition days_before_year :: "int \<Rightarrow> int" where
  "days_before_year y = (let y1 = y - 1 in y1 * 365 + y1 div 4 - y1 div 100 + y1 div 400)"

definition days_before_month :: "int \<Rightarrow> int \<Rightarrow> int" where
  "days_before_month y m =
     [0, 31, 59, 90, 120, 151, 181, 212, 243, 273, 304, 334] ! nat (m - 1)
       + (if m > 2 \<and> is_leap y then 1 else 0)"

definition ymd2ord :: "int \<Rightarrow> int \<Rightarrow> int \<Rightarrow> int" where
  "ymd2ord y m d = days_before_year y + days_before_month y m + d"

definition ord2ymd :: "int \<Rightarrow> int \<times> int \<times> int" where
  "ord2ymd ordinal =
     (let n = ordinal - 1;
          n400 = n div 146097; r400 = n mod 146097;
          n100 = r400 div 36524; r100 = r400 mod 36524;
          n4 = r100 div 1461; r4 = r100 mod 1461;
          n1 = r4 div 365; r1 = r4 mod 365;
          y = n400 * 400 + 1 + n100 * 100 + n4 * 4 + n1
      in if n1 = 4 \<or> n100 = 4 then (y - 1, 12, 31)
         else
           let leapyear = (n1 = 3 \<and> (n4 \<noteq> 24 \<or> n100 = 3));
               leap_day = (\<lambda>m. if m > 2 \<and> leapyear then 1 else 0);
               m = (r1 + 50) div 32;
               preceding = [0, 31, 59, 90, 120, 151, 181, 212, 243, 273, 304, 334] ! nat (m - 1)
                             + leap_day m
           in if preceding > r1
              then (y, m - 1,
                    r1 - ([0, 31, 59, 90, 120, 151, 181, 212, 243, 273, 304, 334] ! nat (m - 2)
                            + leap_day (m - 1)) + 1)
              else (y, m, r1 - preceding + 1))"

definition dt_date :: "datetime \<Rightarrow> int \<times> int \<times> int" where
  "dt_date d = ord2ymd (d div 86400000000 + 719163)"

definition dt_day :: "datetime \<Rightarrow> int" where
  "dt_day d = snd (snd (dt_date d))"

definition mk_datetime :: "int \<Rightarrow> int \<Rightarrow> int \<Rightarrow> int \<Rightarrow> int \<Rightarrow> int \<Rightarrow> datetime" where
  "mk_datetime y m d hh mm ss =
     (((ymd2ord y m d - 719163) * 24 + hh) * 60 + mm) * 60000000 + ss * 1000000"

text \<open>\<^verbatim>\<open>d.replace(day=new_day)\<close>: a day the month does not have raises \<^verbatim>\<open>ValueError\<close>.\<close>

definition dt_replace_day :: "datetime \<Rightarrow> int \<Rightarrow> exn + datetime" where
  "dt_replace_day d new_day =
     (case dt_date d of
        (y, m, old_day) \<Rightarrow>
          if 1 \<le> new_day \<and> new_day \<le> days_in_month y m
          then Inr (d + (new_day - old_day) * 86400000000)
          else Inl (ValueError ''day is out of range for month''))"

section \<open>Market data client (crypto\_api.py)\<close>

type_synonym quotes = "(json \<times> (string \<times> json) list) list"

definition markets_entry :: "json \<Rightarrow> exn + json \<times> (string \<times> json) list" where
  "markets_entry coin =
     then_do (py_getitem coin ''id'') (\<lambda>coin_id.
     then_do (py_getitem coin ''current_price'') (\<lambda>usd.
     then_do (py_get coin ''price_change_percentage_24h'' (JNum 0)) (\<lambda>change.
     then_do (py_get coin ''total_volume'' (JNum 0)) (\<lambda>vol.
     then_do (py_get coin ''market_cap'' (JNum 0)) (\<lambda>cap.
     then_do (py_get coin ''last_updated'' (JStr [])) (\<lambda>updated.
     then_do (py_key coin_id) (\<lambda>k.
       Inr (k, [(''usd'', usd), (''usd_24h_change'', change), (''usd_24h_vol'', vol),
                (''usd_market_cap'', cap), (''last_updated_at'', updated)]))))))))"

fun convert_markets :: "json list \<Rightarrow> quotes \<Rightarrow> exn + quotes" where
  "convert_markets [] result = Inr result"
| "convert_markets (coin # coins) result =
     then_do (markets_entry coin) (\<lambda>kv. convert_markets coins (AList.update (fst kv) (snd kv) result))"

definition get_current_prices ::
  "upstream \<Rightarrow> string list \<Rightarrow> api_state \<Rightarrow> (exn + quotes) \<times> api_state" where
  "get_current_prices up coin_ids s =
     (if coin_ids = [] then (Inr [], s)
      else
        let u = base_url @ ''/coins/markets'';
            ps = [(''vs_currency'', JStr ''usd''),
                  (''ids'', JStr (join '','' coin_ids)),
                  (''order'', JStr ''market_cap_desc''),
                  (''per_page'', JNum (real (length coin_ids))),
                  (''page'', JNum 1),
                  (''sparkline'', JBool False),
                  (''price_change_percentage'', JStr ''24h'')];
            (r, s') = make_request_with_retry up u ps 3 s
        in case then_do r (\<lambda>market_data.
                  then_do (py_iter market_data) (\<lambda>coins. convert_markets coins [])) of
             Inl e \<Rightarrow> (Inl (Failed ''Failed to fetch current prices'' e), s')
           | Inr result \<Rightarrow> (Inr result, s'))"

record pair_info =
  price :: real
  change_24h :: real
  base :: string
  quote :: string

type_synonym pairs = "(string \<times> pair_info) list"

definition eur_usd_fallback :: pair_info where
  "eur_usd_fallback = \<lparr>price = 108 / 100, change_24h = 0, base = ''Euro'', quote = ''US Dollar''\<rparr>"

text \<open>The two crypto pairs of \<^verbatim>\<open>get_trading_pairs\<close>, from the body of \<^verbatim>\<open>/simple/price\<close>.\<close>

definition crypto_pairs :: "json \<Rightarrow> exn + pairs" where
  "crypto_pairs crypto_data =
     then_do (py_contains ''bitcoin'' crypto_data) (\<lambda>has_btc.
     then_do (if has_btc then py_contains ''ethereum'' crypto_data else Inr False) (\<lambda>has_both.
       if has_both then
         then_do (py_getitem crypto_data ''bitcoin'') (\<lambda>btc.
         then_do (py_getitem btc ''usd'') (\<lambda>btc_price_usd.
         then_do (py_getitem crypto_data ''ethereum'') (\<lambda>eth.
         then_do (py_getitem eth ''usd'') (\<lambda>eth_price_usd.
         then_do (py_get btc ''usd_24h_change'' (JNum 0)) (\<lambda>btc_change_24h.
         then_do (py_get eth ''usd_24h_change'' (JNum 0)) (\<lambda>eth_change_24h.
         then_do (py_gt0 btc_price_usd) (\<lambda>btc_pos.
         then_do (if btc_pos then py_gt0 eth_price_usd else Inr False) (\<lambda>both_pos.
           if both_pos then
             then_do (py_truediv eth_price_usd btc_price_usd) (\<lambda>eth_btc_rate.
             then_do (py_sub eth_change_24h btc_change_24h) (\<lambda>eth_btc_change.
             then_do (py_truediv btc_price_usd eth_price_usd) (\<lambda>btc_eth_rate.
             then_do (py_sub btc_change_24h eth_change_24h) (\<lambda>btc_eth_change.
               Inr (AList.update ''BTC/ETH''
                      \<lparr>price = btc_eth_rate, change_24h = btc_eth_change,
                       base = ''Bitcoin'', quote = ''Ethereum''\<rparr>
                   (AList.update ''ETH/BTC''
                      \<lparr>price = eth_btc_rate, change_24h = eth_btc_change,
                       base = ''Ethereum'', quote = ''Bitcoin''\<rparr> []))))))
           else Inr []))))))))
       else Inr []))"

text \<open>
  The inner \<^verbatim>\<open>try\<close> of \<^verbatim>\<open>get_trading_pairs\<close>, from the body of \<^verbatim>\<open>/exchange_rates\<close>:
  the entry it stores under \<^verbatim>\<open>'EUR/USD'\<close>, if it stores one, or the exception it raises.
\<close>

definition exchange_rate_pair :: "json \<Rightarrow> exn + pair_info option" where
  "exchange_rate_pair exchange_data =
     then_do (py_contains ''rates'' exchange_data) (\<lambda>has_rates.
     then_do (if has_rates
              then then_do (py_getitem exchange_data ''rates'') (py_contains ''eur'')
              else Inr False) (\<lambda>has_eur.
       if has_eur then
         then_do (py_getitem exchange_data ''rates'') (\<lambda>rates.
         then_do (py_getitem rates ''eur'') (\<lambda>eur.
         then_do (py_getitem eur ''value'') (\<lambda>usd_eur_rate.
         then_do (py_gt0 usd_eur_rate) (\<lambda>pos.
           if pos then
             then_do (py_truediv (JNum 1) usd_eur_rate) (\<lambda>eur_usd_rate.
               Inr (Some \<lparr>price = eur_usd_rate, change_24h = 0,
                          base = ''Euro'', quote = ''US Dollar''\<rparr>))
           else Inr None))))
       else Inr (Some eur_usd_fallback)))"

definition get_trading_pairs :: "upstream \<Rightarrow> api_state \<Rightarrow> (exn + pairs) \<times> api_state" where
  "get_trading_pairs up s =
     (let crypto_url = base_url @ ''/simple/price'';
          crypto_params = [(''ids'', JStr ''bitcoin,ethereum''),
                           (''vs_currencies'', JStr ''usd''),
                           (''include_24hr_change'', JBool True)];
          (crypto_data, s1) = make_request_with_retry up crypto_url crypto_params 3 s
      in case then_do crypto_data crypto_pairs of
           Inl e \<Rightarrow> (Inl (Failed ''Failed to fetch trading pairs'' e), s1)
         | Inr trading_pairs \<Rightarrow>
             let exchange_url = base_url @ ''/exchange_rates'';
                 (exchange_data, s2) = make_request_with_retry up exchange_url [] 3 s1
             in (Inr (case then_do exchange_data exchange_rate_pair of
                        Inl e \<Rightarrow> AList.update ''EUR/USD'' eur_usd_fallback trading_pairs
                      | Inr None \<Rightarrow> trading_pairs
                      | Inr (Some p) \<Rightarrow> AList.update ''EUR/USD'' p trading_pairs), s2))"

text \<open>
  \<^verbatim>\<open>response = self.session.get(...); response.raise_for_status(); response.json()\<close>:
  a request sent directly, with no rate limiter slot and no retry.
\<close>

definition get_json :: "upstream \<Rightarrow> request \<Rightarrow> api_state \<Rightarrow> (exn + json) \<times> api_state" where
  "get_json up req s =
     (let (resp, s') = session_get up req s
      in (case resp of
            Raises msg \<Rightarrow> Inl (RequestException msg)
          | Response code body \<Rightarrow>
              (case raise_for_status code of Some e \<Rightarrow> Inl e | None \<Rightarrow> Inr body), s'))"

type_synonym series = "datetime list \<times> json list"

definition chart_params :: "string \<Rightarrow> int \<Rightarrow> (string \<times> json) list" where
  "chart_params currency days =
     [(''vs_currency'', JStr currency),
      (''days'', JNum (real_of_int days)),
      (''interval'', JStr (if days \<le> 7 then ''hourly'' else ''daily''))]"

definition chart_url :: "string \<Rightarrow> string" where
  "chart_url coin = base_url @ ''/coins/'' @ coin @ ''/market_chart''"

text \<open>\<^verbatim>\<open>[datetime.fromtimestamp(item[0] / 1000) for item in prices_data]\<close>\<close>

definition item_timestamps :: "int \<Rightarrow> json \<Rightarrow> exn + datetime list" where
  "item_timestamps tz prices_data =
     then_do (py_iter prices_data)
       (comprehension (\<lambda>item.
          then_do (py_index item 0) (\<lambda>t.
          then_do (py_truediv t (JNum 1000)) (\<lambda>secs. Inr (dt_fromtimestamp tz secs)))))"

text \<open>\<^verbatim>\<open>[item[1] for item in prices_data]\<close>\<close>

definition item_prices :: "json \<Rightarrow> exn + json list" where
  "item_prices prices_data =
     then_do (py_iter prices_data) (comprehension (\<lambda>item. py_index item 1))"

text \<open>From the test for \<^verbatim>\<open>'prices'\<close> to the returned pair of lists.\<close>

definition price_series :: "int \<Rightarrow> json \<Rightarrow> exn + series" where
  "price_series tz data =
     then_do (py_contains ''prices'' data) (\<lambda>has_prices.
       if \<not> has_prices then Inl (ValueError ''No price data found in response'')
       else
         then_do (py_getitem data ''prices'') (\<lambda>prices_data.
         then_do (item_timestamps tz prices_data) (\<lambda>timestamps.
         then_do (item_prices prices_data) (\<lambda>prices.
           Inr (timestamps, prices)))))"

definition get_crypto_pair_history ::
  "upstream \<Rightarrow> int \<Rightarrow> string \<Rightarrow> string \<Rightarrow> int \<Rightarrow> api_state \<Rightarrow> (exn + series) \<times> api_state" where
  "get_crypto_pair_history up tz base_coin quote_currency days s =
     (let (data, s') = get_json up
            \<lparr>url = chart_url base_coin, params = chart_params quote_currency days, timeout = 15\<rparr> s
      in (then_do data (price_series tz), s'))"

text \<open>The flat line at the approximate rate: \<open>24 * days\<close> hourly points ending an hour ago.\<close>

definition flat_series :: "datetime \<Rightarrow> int \<Rightarrow> series" where
  "flat_series now days =
     (let current_rate = 108 / 100;
          timestamps = map (\<lambda>i. now - timedelta_hours i) (rev [1..24 * days]);
          prices = replicate (length timestamps) (JNum current_rate)
      in (timestamps, prices))"

text \<open>The loop over \<^verbatim>\<open>range(min(len(usd_prices), len(eur_prices)))\<close>.\<close>

definition eur_usd_rates :: "json list \<Rightarrow> json list \<Rightarrow> exn + json list" where
  "eur_usd_rates usd_prices eur_prices =
     comprehension (\<lambda>ue.
        then_do (py_gt0 (snd ue)) (\<lambda>pos.
          if pos then then_do (py_truediv (fst ue) (snd ue)) (\<lambda>r. Inr (JNum r))
          else Inr (JNum (108 / 100))))
       (zip usd_prices eur_prices)"

text \<open>The body of the \<^verbatim>\<open>try\<close> of \<^verbatim>\<open>_get_fiat_pair_history\<close>.\<close>

definition fiat_pair_history_try ::
  "upstream \<Rightarrow> int \<Rightarrow> datetime \<Rightarrow> string \<Rightarrow> int \<Rightarrow> api_state \<Rightarrow> (exn + series) \<times> api_state" where
  "fiat_pair_history_try up tz now currency days s =
     (let (data, s1) = get_json up
            \<lparr>url = chart_url ''bitcoin'', params = chart_params currency days, timeout = 15\<rparr> s
      in case then_do data (\<lambda>d. then_do (py_contains ''prices'' d) (\<lambda>has. Inr (d, has))) of
           Inl e \<Rightarrow> (Inl e, s1)
         | Inr (d, has_prices) \<Rightarrow>
             if \<not> has_prices then (Inr (flat_series now days), s1)
             else
               (case then_do (py_getitem d ''prices'') (\<lambda>prices_data.
                       then_do (item_timestamps tz prices_data) (\<lambda>timestamps.
                         Inr (prices_data, timestamps))) of
                  Inl e \<Rightarrow> (Inl e, s1)
                | Inr (prices_data, timestamps) \<Rightarrow>
                    let (usd_data, s2) = get_json up
                          \<lparr>url = chart_url ''bitcoin'', params = chart_params ''usd'' days,
                           timeout = 15\<rparr> s1
                    in (then_do usd_data (\<lambda>ud.
                        then_do (py_contains ''prices'' ud) (\<lambda>has_usd.
                          if has_usd then
                            then_do (py_getitem ud ''prices'') (\<lambda>usd_items.
                            then_do (item_prices usd_items) (\<lambda>usd_prices.
                            then_do (item_prices prices_data) (\<lambda>eur_prices.
                            then_do (eur_usd_rates usd_prices eur_prices) (\<lambda>rates.
                              Inr (take (length rates) timestamps, rates)))))
                          else
                            Inr (timestamps,
                                 replicate (length timestamps) (JNum (108 / 100))))), s2)))"

definition get_fiat_pair_history ::
  "upstream \<Rightarrow> int \<Rightarrow> datetime \<Rightarrow> string \<Rightarrow> int \<Rightarrow> api_state \<Rightarrow> (exn + series) \<times> api_state" where
  "get_fiat_pair_history up tz now currency days s =
     (let (r, s') = fiat_pair_history_try up tz now currency days s
      in case r of
           Inr v \<Rightarrow> (Inr v, s')
         | Inl e \<Rightarrow> (Inr (flat_series now days), s'))"

definition get_pair_historical_data ::
  "upstream \<Rightarrow> int \<Rightarrow> datetime \<Rightarrow> string \<Rightarrow> int \<Rightarrow> api_state \<Rightarrow> (exn + series) \<times> api_state" where
  "get_pair_historical_data up tz now pair_name days s =
     (let (r, s') =
            (if pair_name = ''ETH/BTC'' then get_crypto_pair_history up tz ''ethereum'' ''btc'' days s
             else if pair_name = ''BTC/ETH'' then get_crypto_pair_history up tz ''bitcoin'' ''eth'' days s
             else if pair_name = ''EUR/USD'' then get_fiat_pair_history up tz now ''eur'' days s
             else (Inl (ValueError (''Unsupported trading pair: '' @ pair_name)), s))
      in case r of
           Inl e \<Rightarrow> (Inl (Failed (''Failed to fetch historical data for '' @ pair_name) e), s')
         | Inr v \<Rightarrow> (Inr v, s'))"

definition get_historical_data ::
  "upstream \<Rightarrow> int \<Rightarrow> string \<Rightarrow> int \<Rightarrow> api_state \<Rightarrow> (exn + series) \<times> api_state" where
  "get_historical_data up tz coin_id days s =
     (let (data, s') = make_request_with_retry up (chart_url coin_id) (chart_params ''usd'' days) 3 s
      in case then_do data (price_series tz) of
           Inl e \<Rightarrow> (Inl (Failed (''Failed to fetch historical data for '' @ coin_id) e), s')
         | Inr v \<Rightarrow> (Inr v, s'))"

definition get_coin_info :: "upstream \<Rightarrow> string \<Rightarrow> api_state \<Rightarrow> (exn + json) \<times> api_state" where
  "get_coin_info up coin_id s =
     (let ps = [(''localization'', JBool False), (''tickers'', JBool False),
                (''market_data'', JBool True), (''community_data'', JBool False),
                (''developer_data'', JBool False), (''sparkline'', JBool False)];
          (r, s') = get_json up \<lparr>url = base_url @ ''/coins/'' @ coin_id, params = ps, timeout = 10\<rparr> s
      in case r of
           Inl e \<Rightarrow> (Inl (Failed (''Failed to fetch coin info for '' @ coin_id) e), s')
         | Inr v \<Rightarrow> (Inr v, s'))"

section \<open>Cache store (database.py)\<close>

text \<open>
  One record per mapped class, without the primary key: a table is the list of its rows
  in the order queries without \<^verbatim>\<open>ORDER BY\<close> return them, and an insert appends.
  Column length limits are not modelled.
\<close>

record coin_price =
  cp_coin_id :: string
  cp_coin_name :: string
  cp_coin_symbol :: string
  cp_price_usd :: real
  cp_price_btc :: "real option"
  cp_price_eth :: "real option"
  cp_price_eur :: "real option"
  cp_market_cap :: "real option"
  cp_volume_24h :: "real option"
  cp_change_24h :: "real option"
  cp_timestamp :: datetime

record trading_pair =
  tp_pair_name :: string
  tp_base_currency :: string
  tp_quote_currency :: string
  tp_price :: real
  tp_change_24h :: real
  tp_timestamp :: datetime

record historical_data =
  hd_coin_id :: string
  hd_price :: real
  hd_timestamp :: datetime

record pair_historical_data =
  ph_pair_name :: string
  ph_price :: real
  ph_timestamp :: datetime

record db_state =
  coin_prices :: "coin_price list"
  trading_pairs :: "trading_pair list"
  historical_rows :: "historical_data list"
  pair_historical_rows :: "pair_historical_data list"

definition empty_db :: db_state where
  "empty_db = \<lparr>coin_prices = [], trading_pairs = [], historical_rows = [],
               pair_historical_rows = []\<rparr>"

text \<open>What a column accepts: a string, a number, or a number or \<^verbatim>\<open>None\<close>.\<close>

fun string_column :: "json \<Rightarrow> string option" where
  "string_column (JStr s) = Some s"
| "string_column _ = None"

fun nullable_float_column :: "json \<Rightarrow> real option option" where
  "nullable_float_column JNull = Some None"
| "nullable_float_column x = map_option Some (as_num x)"

definition dict_get :: "(string \<times> json) list \<Rightarrow> string \<Rightarrow> json \<Rightarrow> json" where
  "dict_get data key dflt = (case map_of data key of None \<Rightarrow> dflt | Some v \<Rightarrow> v)"

definition new_coin_price :: "datetime \<Rightarrow> json \<Rightarrow> (string \<times> json) list \<Rightarrow> coin_price option" where
  "new_coin_price utcnow coin_id data =
     Option.bind (string_column coin_id) (\<lambda>cid.
     Option.bind (string_column (dict_get data ''name'' (JStr []))) (\<lambda>name.
     Option.bind (string_column (dict_get data ''symbol'' (JStr []))) (\<lambda>symbol.
     Option.bind (as_num (dict_get data ''usd'' (JNum 0))) (\<lambda>usd.
     Option.bind (nullable_float_column (dict_get data ''btc'' (JNum 0))) (\<lambda>btc.
     Option.bind (nullable_float_column (dict_get data ''eth'' (JNum 0))) (\<lambda>eth.
     Option.bind (nullable_float_column (dict_get data ''eur'' (JNum 0))) (\<lambda>eur.
     Option.bind (nullable_float_column (dict_get data ''usd_market_cap'' (JNum 0))) (\<lambda>cap.
     Option.bind (nullable_float_column (dict_get data ''usd_24h_vol'' (JNum 0))) (\<lambda>vol.
     Option.bind (nullable_float_column (dict_get data ''usd_24h_change'' (JNum 0))) (\<lambda>change.
       Some \<lparr>cp_coin_id = cid, cp_coin_name = name, cp_coin_symbol = symbol,
             cp_price_usd = usd, cp_price_btc = btc, cp_price_eth = eth, cp_price_eur = eur,
             cp_market_cap = cap, cp_volume_24h = vol, cp_change_24h = change,
             cp_timestamp = utcnow\<rparr>))))))))))"

text \<open>
  The mutating methods return the exception they re-raise after the rollback, or \<open>()\<close>
  after the commit, and the store they leave.  \<open>utcnow\<close> is \<^verbatim>\<open>datetime.utcnow()\<close>.
\<close>

definition store_coin_prices :: "datetime \<Rightarrow> quotes \<Rightarrow> db_state \<Rightarrow> (exn + unit) \<times> db_state" where
  "store_coin_prices utcnow coin_data d =
     (case those (map (\<lambda>kv. new_coin_price utcnow (fst kv) (snd kv)) coin_data) of
        None \<Rightarrow> (Inl StorageError, d)
      | Some rows \<Rightarrow> (Inr (), d\<lparr>coin_prices := coin_prices d @ rows\<rparr>))"

definition store_trading_pairs :: "datetime \<Rightarrow> pairs \<Rightarrow> db_state \<Rightarrow> (exn + unit) \<times> db_state" where
  "store_trading_pairs utcnow pair_data d =
     (Inr (), d\<lparr>trading_pairs := trading_pairs d @
        map (\<lambda>kv. \<lparr>tp_pair_name = fst kv, tp_base_currency = base (snd kv),
                   tp_quote_currency = quote (snd kv), tp_price = price (snd kv),
                   tp_change_24h = change_24h (snd kv), tp_timestamp = utcnow\<rparr>) pair_data\<rparr>)"

text \<open>
  \<^verbatim>\<open>query(CoinPrice).filter(coin_id == c).order_by(timestamp.desc()).first()\<close>; among
  rows of equal timestamp the model takes the one stored first.
\<close>

definition latest_coin_price :: "db_state \<Rightarrow> string \<Rightarrow> coin_price option" where
  "latest_coin_price d coin_id =
     (case sort_key (\<lambda>r. - cp_timestamp r) (filter (\<lambda>r. cp_coin_id r = coin_id) (coin_prices d)) of
        [] \<Rightarrow> None
      | latest # _ \<Rightarrow> Some latest)"

definition nullable :: "real option \<Rightarrow> json" where
  "nullable x = (case x of None \<Rightarrow> JNull | Some r \<Rightarrow> JNum r)"

definition cached_quote :: "int \<Rightarrow> coin_price \<Rightarrow> (string \<times> json) list" where
  "cached_quote tz latest =
     [(''usd'', JNum (cp_price_usd latest)),
      (''btc'', nullable (cp_price_btc latest)),
      (''eth'', nullable (cp_price_eth latest)),
      (''eur'', nullable (cp_price_eur latest)),
      (''usd_market_cap'', nullable (cp_market_cap latest)),
      (''usd_24h_vol'', nullable (cp_volume_24h latest)),
      (''usd_24h_change'', nullable (cp_change_24h latest)),
      (''last_updated_at'', JNum (dt_timestamp tz (cp_timestamp latest)))]"

text \<open>The body of the loop over \<^verbatim>\<open>coin_ids\<close>.\<close>

definition latest_prices_step :: "int \<Rightarrow> db_state \<Rightarrow> string \<Rightarrow> quotes \<Rightarrow> quotes" where
  "latest_prices_step tz d coin_id latest_prices =
     (case latest_coin_price d coin_id of
        None \<Rightarrow> latest_prices
      | Some latest \<Rightarrow> AList.update (JStr coin_id) (cached_quote tz latest) latest_prices)"

definition get_latest_coin_prices :: "int \<Rightarrow> db_state \<Rightarrow> string list \<Rightarrow> quotes" where
  "get_latest_coin_prices tz d coin_ids = fold (latest_prices_step tz d) coin_ids []"

definition get_latest_trading_pairs :: "db_state \<Rightarrow> pairs" where
  "get_latest_trading_pairs d =
     fold (\<lambda>pair pairs.
             AList.update (tp_pair_name pair)
               \<lparr>price = tp_price pair, change_24h = tp_change_24h pair,
                base = tp_base_currency pair, quote = tp_quote_currency pair\<rparr> pairs)
          (trading_pairs d) []"

definition cleanup_old_data :: "datetime \<Rightarrow> int \<Rightarrow> db_state \<Rightarrow> (exn + unit) \<times> db_state" where
  "cleanup_old_data utcnow days d =
     (case dt_replace_day utcnow (dt_day utcnow - days) of
        Inl e \<Rightarrow> (Inl e, d)
      | Inr cutoff_date \<Rightarrow>
          (Inr (),
           d\<lparr>coin_prices := filter (\<lambda>r. \<not> cp_timestamp r < cutoff_date) (coin_prices d),
             trading_pairs := filter (\<lambda>r. \<not> tp_timestamp r < cutoff_date) (trading_pairs d),
             historical_rows := filter (\<lambda>r. \<not> hd_timestamp r < cutoff_date) (historical_rows d),
             pair_historical_rows :=
               filter (\<lambda>r. \<not> ph_timestamp r < cutoff_date) (pair_historical_rows d)\<rparr>))"

section \<open>Freshness-aware loader (app.py)\<close>

text \<open>
  The model is the body of \<^verbatim>\<open>load_current_prices\<close>; the \<^verbatim>\<open>st.cache_data\<close> memoisation
  around it is not modelled.  The module globals \<^verbatim>\<open>api\<close> and \<^verbatim>\<open>db\<close>, the session flag
  \<^verbatim>\<open>use_database\<close> and the messages shown with \<^verbatim>\<open>st.error\<close> and \<^verbatim>\<open>st.warning\<close>
  make up the state; \<open>db = None\<close> is a database manager that failed to initialise.
\<close>

datatype notice = StError string exn | StWarning string exn

record app_state =
  use_database :: bool
  db :: "db_state option"
  api :: api_state
  messages :: "notice list"

definition py_fromtimestamp :: "int \<Rightarrow> json \<Rightarrow> exn + datetime" where
  "py_fromtimestamp tz v =
     (case as_num v of None \<Rightarrow> Inl TypeError | Some x \<Rightarrow> Inr (dt_fromtimestamp tz x))"

text \<open>
  The loop over \<^verbatim>\<open>cached_prices.items()\<close>: \<open>True\<close> when it returns the cached
  dictionary, \<open>False\<close> when it runs to its end.  \<open>now\<close> is \<^verbatim>\<open>datetime.now()\<close>.
\<close>

fun any_recent :: "int \<Rightarrow> datetime \<Rightarrow> quotes \<Rightarrow> exn + bool" where
  "any_recent tz now [] = Inr False"
| "any_recent tz now (item # rest) =
     (let data = snd item
      in if ''last_updated_at'' \<in> set (map fst data)
         then then_do (py_fromtimestamp tz (dict_get data ''last_updated_at'' JNull)) (\<lambda>last_update.
                if now - last_update < timedelta_minutes 2 then Inr True
                else any_recent tz now rest)
         else any_recent tz now rest)"

text \<open>The cached dictionary the loader returns, if it returns one.\<close>

definition cache_lookup :: "int \<Rightarrow> datetime \<Rightarrow> string list \<Rightarrow> app_state \<Rightarrow> exn + quotes option" where
  "cache_lookup tz now coin_ids a =
     (case (use_database a, db a) of
        (True, Some d) \<Rightarrow>
          let cached_prices = get_latest_coin_prices tz d coin_ids
          in if cached_prices \<noteq> []
             then then_do (any_recent tz now cached_prices) (\<lambda>recent.
                    Inr (if recent then Some cached_prices else None))
             else Inr None
      | _ \<Rightarrow> Inr None)"

definition load_current_prices ::
  "upstream \<Rightarrow> int \<Rightarrow> datetime \<Rightarrow> datetime \<Rightarrow> string list \<Rightarrow> app_state \<Rightarrow> quotes \<times> app_state" where
  "load_current_prices up tz now utcnow coin_ids a =
     (case cache_lookup tz now coin_ids a of
        Inl e \<Rightarrow> ([], a\<lparr>messages := messages a @ [StError ''Failed to load current prices'' e]\<rparr>)
      | Inr (Some cached_prices) \<Rightarrow> (cached_prices, a)
      | Inr None \<Rightarrow>
          let (r, api') = get_current_prices up coin_ids (api a);
              a1 = a\<lparr>api := api'\<rparr>
          in (case r of
                Inl e \<Rightarrow>
                  ([], a1\<lparr>messages := messages a1 @ [StError ''Failed to load current prices'' e]\<rparr>)
              | Inr prices \<Rightarrow>
                  (case (use_database a \<and> prices \<noteq> [], db a) of
                     (True, Some d) \<Rightarrow>
                       (case store_coin_prices utcnow prices d of
                          (Inl e, d') \<Rightarrow>
                            (prices,
                             a1\<lparr>messages := messages a1 @ [StWarning ''Database storage failed'' e]\<rparr>)
                        | (Inr u, d') \<Rightarrow> (prices, a1\<lparr>db := Some d'\<rparr>))
                   | _ \<Rightarrow> (prices, a1))))"

section \<open>Notions the properties are stated with\<close>

text \<open>
  The exception an attempt ends with when it fails at transport level: the request
  raises, or the status is a 4xx or 5xx other than 429.
\<close>

definition transport_failure :: "response \<Rightarrow> exn option" where
  "transport_failure r =
     (case r of
        Raises msg \<Rightarrow> Some (RequestException msg)
      | Response code body \<Rightarrow> if code = 429 then None else raise_for_status code)"

text \<open>The trace without the sleeps of the rate limiter.\<close>

definition without_rate_limit :: "event list \<Rightarrow> event list" where
  "without_rate_limit evs = filter (\<lambda>e. case e of RateLimitSleep d \<Rightarrow> False | _ \<Rightarrow> True) evs"

text \<open>The state after an attempt has taken its slot and sent its request.\<close>

definition attempt_state :: "request \<Rightarrow> api_state \<Rightarrow> api_state" where
  "attempt_state req s = snd (session_get (\<lambda>i r. Raises []) req (rate_limit_delay s))"

text \<open>The entry of a pair in what \<open>get_trading_pairs\<close> returns, if it returns one.\<close>

definition pair_of :: "exn + pairs \<Rightarrow> string \<Rightarrow> pair_info option" where
  "pair_of r pair_name = (case r of Inl e \<Rightarrow> None | Inr tp \<Rightarrow> map_of tp pair_name)"

text \<open>
  Upstream answers used in the examples: BTC at 100 USD (+3%) and ETH at 50 USD (+5%), an
  exchange-rate table whose EUR rate is \<open>v\<close>, and BTC at 49 USD with ETH at 1 USD.
\<close>

definition simple_price_body :: json where
  "simple_price_body =
     JObj [(''bitcoin'', JObj [(''usd'', JNum 100), (''usd_24h_change'', JNum 3)]),
           (''ethereum'', JObj [(''usd'', JNum 50), (''usd_24h_change'', JNum 5)])]"

definition exchange_rates_body :: "json \<Rightarrow> json" where
  "exchange_rates_body v =
     JObj [(''rates'', JObj [(''eur'', JObj [(''name'', JStr ''Euro''), (''value'', v)])])]"

definition lopsided_price_body :: json where
  "lopsided_price_body =
     JObj [(''bitcoin'', JObj [(''usd'', JNum 49), (''usd_24h_change'', JNum 3)]),
           (''ethereum'', JObj [(''usd'', JNum 1), (''usd_24h_change'', JNum 5)])]"

definition lopsided_upstream :: upstream where
  "lopsided_upstream i req =
     (if url req = base_url @ ''/simple/price'' then Response 200 lopsided_price_body
      else Response 200 (exchange_rates_body (JNum 2)))"

definition pairs_upstream :: "json \<Rightarrow> upstream" where
  "pairs_upstream v i req =
     (if url req = base_url @ ''/simple/price'' then Response 200 simple_price_body
      else Response 200 (exchange_rates_body v))"

text \<open>
  A market-chart upstream used in the examples: three points for \<^verbatim>\<open>vs_currency=eur\<close>, the
  second with price 0, and two points for any other currency.
\<close>

definition chart_body :: "json list \<Rightarrow> json" where
  "chart_body items = JObj [(''prices'', JArr items)]"

definition chart_upstream :: upstream where
  "chart_upstream i req =
     (if map_of (params req) ''vs_currency'' = Some (JStr ''eur'')
      then Response 200 (chart_body [JArr [JNum 1000, JNum 2], JArr [JNum 2000, JNum 0],
                                     JArr [JNum 3000, JNum 4]])
      else Response 200 (chart_body [JArr [JNum 1000, JNum 3], JArr [JNum 2000, JNum 5]]))"

text \<open>
  Stores used in the examples: rows with given key, price and timestamp; a store whose only
  quote is a year old; and a pairs table that an unordered query returns newest row first.
\<close>

definition quote_row :: "string \<Rightarrow> real \<Rightarrow> datetime \<Rightarrow> coin_price" where
  "quote_row coin_id usd observed_at =
     \<lparr>cp_coin_id = coin_id, cp_coin_name = [], cp_coin_symbol = [], cp_price_usd = usd,
      cp_price_btc = Some 0, cp_price_eth = Some 0, cp_price_eur = Some 0,
      cp_market_cap = Some 0, cp_volume_24h = Some 0, cp_change_24h = Some 0,
      cp_timestamp = observed_at\<rparr>"

definition pair_row :: "string \<Rightarrow> real \<Rightarrow> datetime \<Rightarrow> trading_pair" where
  "pair_row pair_name p observed_at =
     \<lparr>tp_pair_name = pair_name, tp_base_currency = ''Ethereum'', tp_quote_currency = ''Bitcoin'',
      tp_price = p, tp_change_24h = 0, tp_timestamp = observed_at\<rparr>"

definition stale_db :: db_state where
  "stale_db = empty_db\<lparr>coin_prices := [quote_row ''bitcoin'' 100 (mk_datetime 2023 1 1 0 0 0)]\<rparr>"

definition reordered_pairs_db :: db_state where
  "reordered_pairs_db =
     empty_db\<lparr>trading_pairs :=
       [pair_row ''ETH/BTC'' (6 / 100) (mk_datetime 2024 1 15 12 0 0),
        pair_row ''ETH/BTC'' (5 / 100) (mk_datetime 2024 1 15 11 0 0)]\<rparr>"

text \<open>
  A cached row is fresh when it was observed less than two minutes before \<open>now\<close>.
  \<open>cache_usable\<close> follows the specification's words: every requested key has a latest row,
  and that row is fresh.  \<open>some_fresh\<close>: at least one requested key has a fresh latest row.
\<close>

definition fresh :: "datetime \<Rightarrow> coin_price \<Rightarrow> bool" where
  "fresh now r = (now - cp_timestamp r < timedelta_minutes 2)"

definition cache_usable :: "datetime \<Rightarrow> db_state \<Rightarrow> string list \<Rightarrow> bool" where
  "cache_usable now d coin_ids =
     (\<forall>c \<in> set coin_ids. case latest_coin_price d c of None \<Rightarrow> False | Some r \<Rightarrow> fresh now r)"

definition some_fresh :: "datetime \<Rightarrow> db_state \<Rightarrow> string list \<Rightarrow> bool" where
  "some_fresh now d coin_ids =
     (\<exists>c \<in> set coin_ids. case latest_coin_price d c of None \<Rightarrow> False | Some r \<Rightarrow> fresh now r)"

text \<open>
  Stores and an application state used in the examples: a fresh quote for bitcoin only, fresh
  quotes for bitcoin and ethereum, the application with the cache enabled, and a markets
  upstream that quotes bitcoin at 7 USD.
\<close>

definition partial_db :: db_state where
  "partial_db = empty_db\<lparr>coin_prices := [quote_row ''bitcoin'' 100 (mk_datetime 2024 1 15 12 0 0)]\<rparr>"

definition full_db :: db_state where
  "full_db = empty_db\<lparr>coin_prices := [quote_row ''bitcoin'' 100 (mk_datetime 2024 1 15 12 0 0),
                                       quote_row ''ethereum'' 50 (mk_datetime 2024 1 15 12 0 0)]\<rparr>"

definition app_with :: "db_state \<Rightarrow> app_state" where
  "app_with d = \<lparr>use_database = True, db = Some d, api = init_api 1000, messages = []\<rparr>"

definition markets_upstream :: upstream where
  "markets_upstream i req =
     Response 200 (JArr [JObj [(''id'', JStr ''bitcoin''), (''current_price'', JNum 7)]])"

text \<open>
  What the loader's freshness test computes from a cached dictionary entry, and the entry
  \<open>get_latest_coin_prices\<close> holds under a key.
\<close>

definition recent_data :: "int \<Rightarrow> datetime \<Rightarrow> (string \<times> json) list \<Rightarrow> bool" where
  "recent_data tz now data =
     (case as_num (dict_get data ''last_updated_at'' JNull) of
        None \<Rightarrow> False
      | Some x \<Rightarrow> now - dt_fromtimestamp tz x < timedelta_minutes 2)"

definition latest_entry :: "int \<Rightarrow> db_state \<Rightarrow> string list \<Rightarrow> json \<Rightarrow> (string \<times> json) list option" where
  "latest_entry tz d coin_ids k =
     (case k of
        JStr c \<Rightarrow> if c \<in> set coin_ids then map_option (cached_quote tz) (latest_coin_price d c)
                  else None
      | _ \<Rightarrow> None)"

section \<open>The retrying transport\<close>

lemma sent_rate_limit_delay [simp]: "sent (rate_limit_delay s) = sent s"
  by (simp add: rate_limit_delay_def sleep_def Let_def)

lemma trace_rate_limit_delay:
  "trace (rate_limit_delay s) =
     trace s @ (if clock s - last_request_time s < min_request_interval
                then [RateLimitSleep (min_request_interval - (clock s - last_request_time s))]
                else [])"
  by (simp add: rate_limit_delay_def sleep_def Let_def)

lemma visible_rate_limit_delay [simp]:
  "without_rate_limit (trace (rate_limit_delay s)) = without_rate_limit (trace s)"
  by (simp add: trace_rate_limit_delay without_rate_limit_def)

lemma sent_sleep [simp]: "sent (sleep tag d s) = sent s"
  by (simp add: sleep_def)


lemma retry_step_failure:
  assumes "transport_failure (up (sent s) req) = Some e"
  shows "retry_attempts up req n (a # rest) s =
           (if Suc a = n then (Inl (RequestFailed n e), attempt_state req s)
            else retry_attempts up req n rest (sleep BackoffSleep (2 ^ a) (attempt_state req s)))"
  using assms
  by (auto simp: transport_failure_def attempt_state_def session_get_def Let_def
           split: response.splits if_splits)

lemma sent_attempt_state [simp]: "sent (attempt_state req s) = Suc (sent s)"
  by (simp add: attempt_state_def session_get_def)

lemma without_rate_limit_append [simp]:
  "without_rate_limit (xs @ ys) = without_rate_limit xs @ without_rate_limit ys"
  by (simp add: without_rate_limit_def)

lemma trace_attempt_state: "trace (attempt_state req s) = trace (rate_limit_delay s) @ [Get req]"
  by (simp add: attempt_state_def session_get_def)

lemma visible_attempt_state [simp]:
  "without_rate_limit (trace (attempt_state req s)) = without_rate_limit (trace s) @ [Get req]"
  by (simp add: trace_attempt_state) (simp add: without_rate_limit_def)

lemma visible_backoff [simp]:
  "without_rate_limit (trace (sleep BackoffSleep d s)) = without_rate_limit (trace s) @ [BackoffSleep d]"
  by (simp add: sleep_def without_rate_limit_def)

lemma retry_attempts_all_fail:
  assumes "k < n"
    and "\<And>i. k \<le> i \<Longrightarrow> i < n \<Longrightarrow> transport_failure (up (sent s + (i - k)) req) = Some (cause i)"
  shows "fst (retry_attempts up req n [k..<n] s) = Inl (RequestFailed n (cause (n - 1)))
       \<and> sent (snd (retry_attempts up req n [k..<n] s)) = sent s + (n - k)
       \<and> without_rate_limit (trace (snd (retry_attempts up req n [k..<n] s))) =
           without_rate_limit (trace s)
             @ concat (map (\<lambda>attempt. [Get req, BackoffSleep (2 ^ attempt)]) [k..<n - 1])
             @ [Get req]"
  using assms
proof (induction "n - k" arbitrary: k s)
  case 0
  then show ?case by simp
next
  case (Suc d)
  have first: "transport_failure (up (sent s) req) = Some (cause k)"
    using Suc.prems(2) [of k] Suc.prems(1) by simp
  have unfold: "[k..<n] = k # [Suc k..<n]"
    using Suc.prems(1) by (simp add: upt_conv_Cons)
  show ?case
  proof (cases "Suc k = n")
    case True
    then have "n - 1 = k" by simp
    with True show ?thesis
      unfolding unfold retry_step_failure [where e = "cause k" and up = up and s = s and req = req, OF first]
      by simp
  next
    case False
    let ?s' = "sleep BackoffSleep (2 ^ k) (attempt_state req s)"
    have lt: "Suc k < n" using False Suc.prems(1) by simp
    have d: "d = n - Suc k" using Suc.hyps(2) by simp
    have later: "\<And>i. Suc k \<le> i \<Longrightarrow> i < n \<Longrightarrow>
        transport_failure (up (sent ?s' + (i - Suc k)) req) = Some (cause i)"
    proof -
      fix i assume "Suc k \<le> i" "i < n"
      then have "sent ?s' + (i - Suc k) = sent s + (i - k)" by simp
      then show "transport_failure (up (sent ?s' + (i - Suc k)) req) = Some (cause i)"
        using Suc.prems(2) [of i] \<open>Suc k \<le> i\<close> \<open>i < n\<close> by simp
    qed
    have IH: "fst (retry_attempts up req n [Suc k..<n] ?s') = Inl (RequestFailed n (cause (n - 1)))
       \<and> sent (snd (retry_attempts up req n [Suc k..<n] ?s')) = sent ?s' + (n - Suc k)
       \<and> without_rate_limit (trace (snd (retry_attempts up req n [Suc k..<n] ?s'))) =
           without_rate_limit (trace ?s')
             @ concat (map (\<lambda>attempt. [Get req, BackoffSleep (2 ^ attempt)]) [Suc k..<n - 1])
             @ [Get req]"
      using Suc.hyps(1) [OF d lt later] by simp
    have step: "retry_attempts up req n [k..<n] s = retry_attempts up req n [Suc k..<n] ?s'"
      unfolding unfold retry_step_failure [where e = "cause k" and up = up and s = s and req = req, OF first]
      using False by simp
    have unfold2: "[k..<n - 1] = k # [Suc k..<n - 1]"
      using lt by (simp add: upt_conv_Cons)
    show ?thesis
      unfolding step unfold2 using IH lt by simp
  qed
qed

text \<open>
  C4.  When every attempt fails at transport level, \<open>make_request_with_retry\<close> sends
  exactly \<open>max_retries\<close> requests, sleeps \<open>2 ^ attempt\<close> seconds after each failed attempt
  but the last, and raises \<open>RequestFailed\<close> with the exception of the last attempt.
\<close>

theorem retry_exhausted:
  assumes "0 < max_retries"
    and "\<forall>i<max_retries.
           transport_failure (up (sent s + i) \<lparr>url = u, params = ps, timeout = 15\<rparr>) = Some (cause i)"
  shows "fst (make_request_with_retry up u ps max_retries s) =
           Inl (RequestFailed max_retries (cause (max_retries - 1)))
       \<and> sent (snd (make_request_with_retry up u ps max_retries s)) = sent s + max_retries
       \<and> without_rate_limit (trace (snd (make_request_with_retry up u ps max_retries s))) =
           without_rate_limit (trace s)
             @ concat (map (\<lambda>attempt. [Get \<lparr>url = u, params = ps, timeout = 15\<rparr>,
                                         BackoffSleep (2 ^ attempt)])
                         [0..<max_retries - 1])
             @ [Get \<lparr>url = u, params = ps, timeout = 15\<rparr>]"
  using retry_attempts_all_fail [of 0 max_retries up s "\<lparr>url = u, params = ps, timeout = 15\<rparr>" cause]
    assms
  by (simp add: make_request_with_retry_def)

theorem retry_exhausted_witness:
  "fst (make_request_with_retry (\<lambda>i r. Response 503 JNull) ''u'' [] 3 (init_api 1000)) =
     Inl (RequestFailed 3 (HTTPError 503))
   \<and> sent (snd (make_request_with_retry (\<lambda>i r. Response 503 JNull) ''u'' [] 3 (init_api 1000))) = 3
   \<and> without_rate_limit
       (trace (snd (make_request_with_retry (\<lambda>i r. Response 503 JNull) ''u'' [] 3 (init_api 1000)))) =
       [Get \<lparr>url = ''u'', params = [], timeout = 15\<rparr>, BackoffSleep 1,
        Get \<lparr>url = ''u'', params = [], timeout = 15\<rparr>, BackoffSleep 2,
        Get \<lparr>url = ''u'', params = [], timeout = 15\<rparr>]"
  using retry_exhausted [of 3 "\<lambda>i r. Response 503 JNull" "init_api 1000" "''u''" "[]"
      "\<lambda>i. HTTPError 503"]
  by (simp add: transport_failure_def raise_for_status_def init_api_def without_rate_limit_def
      upt_conv_Cons)

lemma retry_step_rate_limited:
  assumes "up (sent s) req = Response 429 b"
  shows "retry_attempts up req n (a # rest) s =
           retry_attempts up req n rest (sleep BackoffSleep (2 ^ a * 5) (attempt_state req s))"
  using assms by (simp add: attempt_state_def session_get_def Let_def)

lemma retry_step_success:
  assumes "up (sent s) req = Response code body" "code \<noteq> 429" "raise_for_status code = None"
  shows "retry_attempts up req n (a # rest) s = (Inr body, attempt_state req s)"
  using assms by (simp add: attempt_state_def session_get_def Let_def)

lemma trace_after_backoff:
  assumes "min_request_interval \<le> d"
  shows "trace (attempt_state req (sleep BackoffSleep d (attempt_state req' s))) =
           trace (attempt_state req' s) @ [BackoffSleep d, Get req]"
  using assms
  by (simp add: attempt_state_def session_get_def rate_limit_delay_def sleep_def Let_def)

text \<open>
  C5.  When the upstream answers 429 to the first two attempts and succeeds on the third,
  \<open>make_request_with_retry\<close> returns the body of the third response; it sleeps 5 seconds
  after the first 429 and 10 seconds after the second, and the only other sleep is the
  rate limiter's before the first attempt, if the previous request was less than
  \<open>min_request_interval\<close> ago.
\<close>

theorem rate_limited_twice_then_success:
  assumes "3 \<le> max_retries"
    and "up (sent s) \<lparr>url = u, params = ps, timeout = 15\<rparr> = Response 429 b0"
    and "up (sent s + 1) \<lparr>url = u, params = ps, timeout = 15\<rparr> = Response 429 b1"
    and "up (sent s + 2) \<lparr>url = u, params = ps, timeout = 15\<rparr> = Response code body"
    and "code \<noteq> 429" and "raise_for_status code = None"
  shows "fst (make_request_with_retry up u ps max_retries s) = Inr body
       \<and> sent (snd (make_request_with_retry up u ps max_retries s)) = sent s + 3
       \<and> trace (snd (make_request_with_retry up u ps max_retries s)) =
           trace s
             @ (if clock s - last_request_time s < min_request_interval
                then [RateLimitSleep (min_request_interval - (clock s - last_request_time s))]
                else [])
             @ [Get \<lparr>url = u, params = ps, timeout = 15\<rparr>, BackoffSleep 5,
                Get \<lparr>url = u, params = ps, timeout = 15\<rparr>, BackoffSleep 10,
                Get \<lparr>url = u, params = ps, timeout = 15\<rparr>]"
proof -
  let ?req = "\<lparr>url = u, params = ps, timeout = 15\<rparr>"
  let ?s1 = "sleep BackoffSleep 5 (attempt_state ?req s)"
  let ?s2 = "sleep BackoffSleep 10 (attempt_state ?req ?s1)"
  have attempts: "[0..<max_retries] = 0 # 1 # 2 # [3..<max_retries]"
    using assms(1) by (simp add: upt_conv_Cons numeral_3_eq_3 numeral_2_eq_2)
  have r0: "up (sent s) ?req = Response 429 b0" using assms(2) .
  have r1: "up (sent ?s1) ?req = Response 429 b1" using assms(3) by simp
  have r2: "up (sent ?s2) ?req = Response code body" using assms(4) by (simp add: numeral_2_eq_2)
  have run: "make_request_with_retry up u ps max_retries s = (Inr body, attempt_state ?req ?s2)"
    unfolding make_request_with_retry_def attempts
    by (simp del: retry_attempts.simps
        add: retry_step_rate_limited [where up = up and s = s and req = ?req, OF r0]
        retry_step_rate_limited [where up = up and s = ?s1 and req = ?req, OF r1]
        retry_step_success [where up = up and s = ?s2 and req = ?req, OF r2 assms(5) assms(6)])
  have t2: "trace (attempt_state ?req ?s2) = trace (attempt_state ?req ?s1) @ [BackoffSleep 10, Get ?req]"
    using trace_after_backoff [of 10 ?req ?req ?s1] by (simp add: min_request_interval_def)
  have t1: "trace (attempt_state ?req ?s1) = trace (attempt_state ?req s) @ [BackoffSleep 5, Get ?req]"
    using trace_after_backoff [of 5 ?req ?req s] by (simp add: min_request_interval_def)
  have "trace (attempt_state ?req ?s2) =
          (trace (attempt_state ?req s) @ [BackoffSleep 5, Get ?req]) @ [BackoffSleep 10, Get ?req]"
    by (simp only: t2 t1)
  then have t: "trace (attempt_state ?req ?s2) =
      trace s
        @ (if clock s - last_request_time s < min_request_interval
           then [RateLimitSleep (min_request_interval - (clock s - last_request_time s))]
           else [])
        @ [Get ?req, BackoffSleep 5, Get ?req, BackoffSleep 10, Get ?req]"
    by (simp add: trace_attempt_state trace_rate_limit_delay)
  have n: "sent (attempt_state ?req ?s2) = sent s + 3"
    by simp
  show ?thesis
    unfolding run fst_conv snd_conv using t n by simp
qed

theorem rate_limited_twice_then_success_witness:
  "fst (make_request_with_retry (\<lambda>i r. if i < 2 then Response 429 JNull else Response 200 (JObj []))
          ''u'' [] 3 (init_api 1000)) = Inr (JObj [])
   \<and> trace (snd (make_request_with_retry
                   (\<lambda>i r. if i < 2 then Response 429 JNull else Response 200 (JObj []))
                   ''u'' [] 3 (init_api 1000))) =
       [Get \<lparr>url = ''u'', params = [], timeout = 15\<rparr>, BackoffSleep 5,
        Get \<lparr>url = ''u'', params = [], timeout = 15\<rparr>, BackoffSleep 10,
        Get \<lparr>url = ''u'', params = [], timeout = 15\<rparr>]"
  using rate_limited_twice_then_success [of 3
      "\<lambda>i r. if i < 2 then Response 429 JNull else Response 200 (JObj [])" "init_api 1000"
      "''u''" "[]" JNull JNull 200 "JObj []"]
  by (simp add: raise_for_status_def init_api_def min_request_interval_def)

section \<open>The market data client\<close>

text \<open>
  C9.  For the empty list of ids \<open>get_current_prices\<close> returns the empty dictionary and
  leaves the client as it was: nothing is sent, nothing sleeps.
\<close>

theorem empty_request_makes_no_call: "get_current_prices up [] s = (Inr [], s)"
  by (simp add: get_current_prices_def)

section \<open>Trading pairs\<close>

lemma getitem_contains: "py_getitem x k = Inr v \<Longrightarrow> py_contains k x = Inr True"
  by (cases x) (force split: option.splits dest: map_of_SomeD)+

text \<open>Values of the float operations at the numbers of the examples.\<close>

lemma double_quotients:
  "py_truediv (JNum 50) (JNum 100) = Inr (1 / 2)"
  "py_truediv (JNum 100) (JNum 50) = Inr 2"
  "py_truediv (JNum 1) (JNum 49) = Inr (5882252574524729 / 288230376151711744)"
  "py_truediv (JNum 49) (JNum 1) = Inr 49"
  "py_truediv (JNum 1) (JNum 2) = Inr (1 / 2)"
  "py_truediv (JNum 3) (JNum 2) = Inr (3 / 2)"
  "py_truediv (JNum 1000) (JNum 1000) = Inr 1"
  "py_truediv (JNum 2000) (JNum 1000) = Inr 2"
  "py_truediv (JNum 3000) (JNum 1000) = Inr 3"
  by code_simp+

lemma double_differences:
  "py_sub (JNum 5) (JNum 3) = Inr 2"
  "py_sub (JNum 3) (JNum 5) = Inr (- 2)"
  by code_simp+

lemma finite_doubles:
  "finite_double (1 / 2)" "finite_double 2" "finite_double (- 2)"
  by code_simp+

lemma crypto_pairs_positive:
  assumes "py_getitem crypto_data ''bitcoin'' = Inr btc"
    and "py_getitem crypto_data ''ethereum'' = Inr eth"
    and "py_getitem btc ''usd'' = Inr (JNum btc_price_usd)"
    and "py_getitem eth ''usd'' = Inr (JNum eth_price_usd)"
    and "py_get btc ''usd_24h_change'' (JNum 0) = Inr (JNum btc_change_24h)"
    and "py_get eth ''usd_24h_change'' (JNum 0) = Inr (JNum eth_change_24h)"
    and "0 < btc_price_usd" and "0 < eth_price_usd"
    and "finite_double (eth_price_usd / btc_price_usd)"
    and "finite_double (btc_price_usd / eth_price_usd)"
    and "finite_double (eth_change_24h - btc_change_24h)"
    and "finite_double (btc_change_24h - eth_change_24h)"
  shows "crypto_pairs crypto_data =
           Inr [(''ETH/BTC'', \<lparr>price = round_to_double (eth_price_usd / btc_price_usd),
                               change_24h = round_to_double (eth_change_24h - btc_change_24h),
                               base = ''Ethereum'', quote = ''Bitcoin''\<rparr>),
                (''BTC/ETH'', \<lparr>price = round_to_double (btc_price_usd / eth_price_usd),
                               change_24h = round_to_double (btc_change_24h - eth_change_24h),
                               base = ''Bitcoin'', quote = ''Ethereum''\<rparr>)]"
  using assms getitem_contains [OF assms(1)] getitem_contains [OF assms(2)]
  by (simp add: crypto_pairs_def then_do_def py_gt0_def py_truediv_def py_sub_def)

text \<open>
  C8, as amended.  When the body of \<^verbatim>\<open>/simple/price\<close> gives positive USD prices for
  bitcoin and ethereum, \<open>get_trading_pairs\<close> returns \<^verbatim>\<open>ETH/BTC\<close> priced at the ethereum
  price divided by the bitcoin price and \<^verbatim>\<open>BTC/ETH\<close> priced at the bitcoin price divided
  by the ethereum price, each quotient rounded to the nearest double, and the 24h change of
  each pair is the rounded difference of the two assets' 24h changes, provided these
  results are finite doubles.  The two prices are reciprocals up to rounding; prices 100
  and 50 give exactly 1/2 and 2.
\<close>

theorem pair_rate_derivation:
  assumes "fst (make_request_with_retry up (base_url @ ''/simple/price'')
                  [(''ids'', JStr ''bitcoin,ethereum''), (''vs_currencies'', JStr ''usd''),
                   (''include_24hr_change'', JBool True)] 3 s) = Inr crypto_data"
    and "py_getitem crypto_data ''bitcoin'' = Inr btc"
    and "py_getitem crypto_data ''ethereum'' = Inr eth"
    and "py_getitem btc ''usd'' = Inr (JNum btc_price_usd)"
    and "py_getitem eth ''usd'' = Inr (JNum eth_price_usd)"
    and "py_get btc ''usd_24h_change'' (JNum 0) = Inr (JNum btc_change_24h)"
    and "py_get eth ''usd_24h_change'' (JNum 0) = Inr (JNum eth_change_24h)"
    and "0 < btc_price_usd" and "0 < eth_price_usd"
    and "finite_double (eth_price_usd / btc_price_usd)"
    and "finite_double (btc_price_usd / eth_price_usd)"
    and "finite_double (eth_change_24h - btc_change_24h)"
    and "finite_double (btc_change_24h - eth_change_24h)"
  shows "pair_of (fst (get_trading_pairs up s)) ''ETH/BTC'' =
           Some \<lparr>price = round_to_double (eth_price_usd / btc_price_usd),
                 change_24h = round_to_double (eth_change_24h - btc_change_24h),
                 base = ''Ethereum'', quote = ''Bitcoin''\<rparr>
       \<and> pair_of (fst (get_trading_pairs up s)) ''BTC/ETH'' =
           Some \<lparr>price = round_to_double (btc_price_usd / eth_price_usd),
                 change_24h = round_to_double (btc_change_24h - eth_change_24h),
                 base = ''Bitcoin'', quote = ''Ethereum''\<rparr>"
proof -
  let ?crypto = "make_request_with_retry up (base_url @ ''/simple/price'')
                  [(''ids'', JStr ''bitcoin,ethereum''), (''vs_currencies'', JStr ''usd''),
                   (''include_24hr_change'', JBool True)] 3 s"
  obtain s1 where m1: "?crypto = (Inr crypto_data, s1)"
    using assms(1) by (cases ?crypto) simp
  obtain exchange_data s2 where
    m2: "make_request_with_retry up (base_url @ ''/exchange_rates'') [] 3 s1 = (exchange_data, s2)"
    by fastforce
  note cp = crypto_pairs_positive [OF assms(2-13)]
  show ?thesis
    by (simp add: get_trading_pairs_def m1 m2 cp then_do_def update_conv' pair_of_def
             split: sum.splits option.splits)
qed

lemma first_attempt_success:
  assumes "up (sent s) \<lparr>url = u, params = ps, timeout = 15\<rparr> = Response code body"
    and "code \<noteq> 429" and "raise_for_status code = None" and "0 < n"
  shows "make_request_with_retry up u ps n s =
           (Inr body, attempt_state \<lparr>url = u, params = ps, timeout = 15\<rparr> s)"
proof -
  have "[0..<n] = 0 # [1..<n]"
    using assms(4) by (simp add: upt_conv_Cons)
  then show ?thesis
    unfolding make_request_with_retry_def
    by (simp del: retry_attempts.simps
        add: retry_step_success [where up = up and s = s, OF assms(1-3)])
qed

lemma pairs_upstream_crypto:
  "make_request_with_retry (pairs_upstream v) (base_url @ ''/simple/price'') ps 3 s =
     (Inr simple_price_body,
      attempt_state \<lparr>url = base_url @ ''/simple/price'', params = ps, timeout = 15\<rparr> s)"
  by (rule first_attempt_success [where code = 200])
     (simp_all add: pairs_upstream_def raise_for_status_def)

lemma pairs_upstream_exchange:
  "make_request_with_retry (pairs_upstream v) (base_url @ ''/exchange_rates'') ps 3 s =
     (Inr (exchange_rates_body v),
      attempt_state \<lparr>url = base_url @ ''/exchange_rates'', params = ps, timeout = 15\<rparr> s)"
  by (rule first_attempt_success [where code = 200])
     (simp_all add: pairs_upstream_def raise_for_status_def)

lemma lopsided_upstream_crypto:
  "make_request_with_retry lopsided_upstream (base_url @ ''/simple/price'') ps 3 s =
     (Inr lopsided_price_body,
      attempt_state \<lparr>url = base_url @ ''/simple/price'', params = ps, timeout = 15\<rparr> s)"
  by (rule first_attempt_success [where code = 200])
     (simp_all add: lopsided_upstream_def raise_for_status_def)

lemma lopsided_upstream_exchange:
  "make_request_with_retry lopsided_upstream (base_url @ ''/exchange_rates'') ps 3 s =
     (Inr (exchange_rates_body (JNum 2)),
      attempt_state \<lparr>url = base_url @ ''/exchange_rates'', params = ps, timeout = 15\<rparr> s)"
  by (rule first_attempt_success [where code = 200])
     (simp_all add: lopsided_upstream_def raise_for_status_def)

theorem pair_rate_derivation_witness:
  "pair_of (fst (get_trading_pairs (pairs_upstream (JNum 2)) (init_api 1000))) ''ETH/BTC'' =
     Some \<lparr>price = 1 / 2, change_24h = 2, base = ''Ethereum'', quote = ''Bitcoin''\<rparr>
   \<and> pair_of (fst (get_trading_pairs (pairs_upstream (JNum 2)) (init_api 1000))) ''BTC/ETH'' =
     Some \<lparr>price = 2, change_24h = - 2, base = ''Bitcoin'', quote = ''Ethereum''\<rparr>"
proof -
  have rounded: "round_to_double (1 / 2) = 1 / 2" "round_to_double 2 = 2"
    "round_to_double (- 2) = - 2"
    by code_simp+
  show ?thesis
    using pair_rate_derivation [of "pairs_upstream (JNum 2)" "init_api 1000" simple_price_body
        "JObj [(''usd'', JNum 100), (''usd_24h_change'', JNum 3)]"
        "JObj [(''usd'', JNum 50), (''usd_24h_change'', JNum 5)]" 100 50 3 5]
    by (simp add: pairs_upstream_crypto simple_price_body_def finite_doubles rounded)
qed

text \<open>
  C8 as stated fails: with bitcoin at 49 USD and ethereum at 1 USD, \<^verbatim>\<open>ETH/BTC\<close> is the
  double nearest to 1/49 and \<^verbatim>\<open>BTC/ETH\<close> is 49, which is neither the reciprocal of that
  double nor what dividing 1 by it gives in floating point (49.00000000000001).
\<close>

theorem reciprocal_is_not_exact:
  "pair_of (fst (get_trading_pairs lopsided_upstream (init_api 1000))) ''ETH/BTC'' =
     Some \<lparr>price = 5882252574524729 / 288230376151711744, change_24h = 2,
           base = ''Ethereum'', quote = ''Bitcoin''\<rparr>
   \<and> pair_of (fst (get_trading_pairs lopsided_upstream (init_api 1000))) ''BTC/ETH'' =
     Some \<lparr>price = 49, change_24h = - 2, base = ''Bitcoin'', quote = ''Ethereum''\<rparr>
   \<and> (49 :: real) \<noteq> 1 / (5882252574524729 / 288230376151711744)
   \<and> py_truediv (JNum 1) (JNum (5882252574524729 / 288230376151711744)) = Inr (49 + 1 / 2 ^ 47)"
proof -
  have float_reciprocal:
    "py_truediv (JNum 1) (JNum (5882252574524729 / 288230376151711744)) = Inr (49 + 1 / 2 ^ 47)"
    by code_simp
  have pairs: "fst (get_trading_pairs lopsided_upstream (init_api 1000)) =
      Inr [(''ETH/BTC'', \<lparr>price = 5882252574524729 / 288230376151711744, change_24h = 2,
                          base = ''Ethereum'', quote = ''Bitcoin''\<rparr>),
           (''BTC/ETH'', \<lparr>price = 49, change_24h = - 2, base = ''Bitcoin'', quote = ''Ethereum''\<rparr>),
           (''EUR/USD'', \<lparr>price = 1 / 2, change_24h = 0, base = ''Euro'', quote = ''US Dollar''\<rparr>)]"
    by (simp add: get_trading_pairs_def lopsided_upstream_crypto lopsided_upstream_exchange
        lopsided_price_body_def exchange_rates_body_def crypto_pairs_def exchange_rate_pair_def
        then_do_def py_gt0_def double_quotients double_differences)
  show ?thesis
    unfolding pairs using float_reciprocal by (simp add: pair_of_def)
qed

text \<open>
  C2.  The claim: whenever the crypto leg succeeds the result has an \<^verbatim>\<open>EUR/USD\<close> entry,
  with price 1.08 and change 0 when the exchange-rate lookup fails, a zero rate included.
  The lookup that raises does give the fallback entry (\<open>exchange_failure_gives_fallback\<close>),
  but an exchange-rate table whose EUR rate is 0 leaves the result without any
  \<^verbatim>\<open>EUR/USD\<close> entry: the test \<^verbatim>\<open>usd_eur_rate > 0\<close> has no \<^verbatim>\<open>else\<close>.
\<close>

theorem zero_rate_drops_eur_usd:
  "fst (get_trading_pairs (pairs_upstream (JNum 0)) (init_api 1000)) =
     Inr [(''ETH/BTC'', \<lparr>price = 1 / 2, change_24h = 2, base = ''Ethereum'', quote = ''Bitcoin''\<rparr>),
          (''BTC/ETH'', \<lparr>price = 2, change_24h = - 2, base = ''Bitcoin'', quote = ''Ethereum''\<rparr>)]
   \<and> pair_of (fst (get_trading_pairs (pairs_upstream (JNum 0)) (init_api 1000))) ''EUR/USD'' = None"
  by (simp add: get_trading_pairs_def pairs_upstream_crypto pairs_upstream_exchange
      simple_price_body_def exchange_rates_body_def crypto_pairs_def exchange_rate_pair_def
      then_do_def py_gt0_def double_quotients double_differences pair_of_def)

lemma exchange_failure_gives_fallback:
  assumes "fst (get_trading_pairs up s) = Inr tp"
    and "fst (make_request_with_retry up (base_url @ ''/exchange_rates'') [] 3
           (snd (make_request_with_retry up (base_url @ ''/simple/price'')
                  [(''ids'', JStr ''bitcoin,ethereum''), (''vs_currencies'', JStr ''usd''),
                   (''include_24hr_change'', JBool True)] 3 s))) = Inl e"
  shows "map_of tp ''EUR/USD'' = Some eur_usd_fallback"
  using assms
  by (auto simp: get_trading_pairs_def then_do_def update_conv' Let_def
           split: sum.splits prod.splits)

section \<open>Historical series\<close>

lemma comprehension_length: "comprehension f xs = Inr ys \<Longrightarrow> length ys = length xs"
proof (induction xs arbitrary: ys)
  case Nil
  then show ?case by simp
next
  case (Cons x xs)
  then show ?case
    by (auto simp: then_do_def split: sum.splits)
qed

lemma item_timestamps_length:
  "item_timestamps tz prices_data = Inr ts \<Longrightarrow> py_iter prices_data = Inr items \<Longrightarrow>
   length ts = length items"
  by (auto simp: item_timestamps_def then_do_def dest: comprehension_length)

lemma item_prices_length:
  "item_prices prices_data = Inr ps \<Longrightarrow> py_iter prices_data = Inr items \<Longrightarrow>
   length ps = length items"
  by (auto simp: item_prices_def then_do_def dest: comprehension_length)

lemma item_prices_iter: "item_prices prices_data = Inr ps \<Longrightarrow> \<exists>items. py_iter prices_data = Inr items"
  by (auto simp: item_prices_def then_do_def split: sum.splits)

lemma price_series_lengths:
  assumes "price_series tz data = Inr (ts, ps)"
  shows "length ts = length ps"
proof -
  from assms obtain prices_data where
    t: "item_timestamps tz prices_data = Inr ts" and p: "item_prices prices_data = Inr ps"
    by (auto simp: price_series_def then_do_def split: sum.splits if_splits)
  from p obtain items where "py_iter prices_data = Inr items"
    using item_prices_iter by blast
  then show ?thesis
    using item_timestamps_length [OF t] item_prices_length [OF p] by simp
qed

lemma flat_series_lengths: "flat_series now days = (ts, ps) \<Longrightarrow> length ts = length ps"
  by (auto simp: flat_series_def Let_def)

lemma eur_usd_rates_length:
  "eur_usd_rates usd_prices eur_prices = Inr rates \<Longrightarrow>
   length rates = min (length usd_prices) (length eur_prices)"
  by (auto simp: eur_usd_rates_def dest: comprehension_length)

lemma fiat_pair_history_try_lengths:
  assumes "fst (fiat_pair_history_try up tz now currency days s) = Inr (ts, ps)"
  shows "length ts = length ps"
proof -
  let ?req = "\<lparr>url = chart_url ''bitcoin'', params = chart_params currency days, timeout = 15\<rparr>"
  obtain data s1 where g1: "get_json up ?req s = (data, s1)"
    by fastforce
  show ?thesis
  proof (cases "then_do data (\<lambda>d. then_do (py_contains ''prices'' d) (\<lambda>has. Inr (d, has)))")
    case (Inl e)
    with assms g1 show ?thesis
      by (simp add: fiat_pair_history_try_def)
  next
    case (Inr dh)
    obtain d has_prices where dh: "dh = (d, has_prices)" by (cases dh)
    show ?thesis
    proof (cases has_prices)
      case False
      with assms g1 Inr dh have "flat_series now days = (ts, ps)"
        by (simp add: fiat_pair_history_try_def)
      then show ?thesis by (rule flat_series_lengths)
    next
      case True
      show ?thesis
      proof (cases "then_do (py_getitem d ''prices'') (\<lambda>prices_data.
                       then_do (item_timestamps tz prices_data) (\<lambda>timestamps.
                         Inr (prices_data, timestamps)))")
        case (Inl e)
        with assms g1 Inr dh True show ?thesis
          by (simp add: fiat_pair_history_try_def)
      next
        case inner: (Inr pt)
        obtain prices_data timestamps where pt: "pt = (prices_data, timestamps)" by (cases pt)
        from inner pt have t: "item_timestamps tz prices_data = Inr timestamps"
          by (auto simp: then_do_def split: sum.splits)
        let ?req2 = "\<lparr>url = chart_url ''bitcoin'', params = chart_params ''usd'' days, timeout = 15\<rparr>"
        obtain usd_data s2 where g2: "get_json up ?req2 s1 = (usd_data, s2)"
          by fastforce
        from assms g1 Inr dh True inner pt g2
        have res: "then_do usd_data (\<lambda>ud.
                        then_do (py_contains ''prices'' ud) (\<lambda>has_usd.
                          if has_usd then
                            then_do (py_getitem ud ''prices'') (\<lambda>usd_items.
                            then_do (item_prices usd_items) (\<lambda>usd_prices.
                            then_do (item_prices prices_data) (\<lambda>eur_prices.
                            then_do (eur_usd_rates usd_prices eur_prices) (\<lambda>rates.
                              Inr (take (length rates) timestamps, rates)))))
                          else
                            Inr (timestamps,
                                 replicate (length timestamps) (JNum (108 / 100))))) = Inr (ts, ps)"
          by (simp add: fiat_pair_history_try_def)
        then obtain ud has_usd where ud: "usd_data = Inr ud" and hu: "py_contains ''prices'' ud = Inr has_usd"
          by (auto simp: then_do_def split: sum.splits)
        show ?thesis
        proof (cases has_usd)
          case False
          with res ud hu show ?thesis by (auto simp: then_do_def)
        next
          case True
          with res ud hu obtain usd_prices eur_prices where
            e: "item_prices prices_data = Inr eur_prices" and
            r: "eur_usd_rates usd_prices eur_prices = Inr ps" and
            ts: "ts = take (length ps) timestamps"
            by (auto simp: then_do_def split: sum.splits)
          from e obtain items where it: "py_iter prices_data = Inr items"
            using item_prices_iter by blast
          have "length eur_prices = length timestamps"
            using item_timestamps_length [OF t it] item_prices_length [OF e it] by simp
          then show ?thesis
            using eur_usd_rates_length [OF r] ts by simp
        qed
      qed
    qed
  qed
qed

lemma get_fiat_pair_history_lengths:
  assumes "fst (get_fiat_pair_history up tz now currency days s) = Inr (ts, ps)"
  shows "length ts = length ps"
proof (cases "fst (fiat_pair_history_try up tz now currency days s)")
  case (Inl e)
  with assms have "flat_series now days = (ts, ps)"
    by (simp add: get_fiat_pair_history_def split: prod.splits)
  then show ?thesis by (rule flat_series_lengths)
next
  case (Inr v)
  with assms have "fst (fiat_pair_history_try up tz now currency days s) = Inr (ts, ps)"
    by (simp add: get_fiat_pair_history_def split: prod.splits)
  then show ?thesis by (rule fiat_pair_history_try_lengths)
qed

lemma get_fiat_pair_history_returns:
  "\<exists>v. fst (get_fiat_pair_history up tz now currency days s) = Inr v"
  by (simp add: get_fiat_pair_history_def split: prod.splits sum.splits)

lemma get_crypto_pair_history_lengths:
  assumes "fst (get_crypto_pair_history up tz base_coin quote_currency days s) = Inr (ts, ps)"
  shows "length ts = length ps"
  using assms
  by (auto simp: get_crypto_pair_history_def then_do_def split: prod.splits sum.splits
           dest: price_series_lengths)

lemma get_historical_data_lengths:
  assumes "fst (get_historical_data up tz coin_id days s) = Inr (ts, ps)"
  shows "length ts = length ps"
  using assms
  by (auto simp: get_historical_data_def then_do_def split: prod.splits sum.splits
           dest: price_series_lengths)

text \<open>
  C10.  Whatever \<open>get_historical_data\<close>, \<open>get_crypto_pair_history\<close> and
  \<open>get_fiat_pair_history\<close> return, the list of timestamps and the list of prices have the
  same length; for the fiat series this covers the flat fallback, the truncation to the
  shorter of the two upstream series, and the fallback when the USD series has no prices.
\<close>

theorem series_lengths_agree:
  "(fst (get_historical_data up tz coin_id days s) = Inr (ts, ps) \<longrightarrow> length ts = length ps)
 \<and> (fst (get_crypto_pair_history up tz base_coin quote_currency days s) = Inr (ts, ps)
      \<longrightarrow> length ts = length ps)
 \<and> (fst (get_fiat_pair_history up tz now currency days s) = Inr (ts, ps)
      \<longrightarrow> length ts = length ps)"
proof (intro conjI impI)
  assume "fst (get_historical_data up tz coin_id days s) = Inr (ts, ps)"
  then show "length ts = length ps" by (rule get_historical_data_lengths)
next
  assume "fst (get_crypto_pair_history up tz base_coin quote_currency days s) = Inr (ts, ps)"
  then show "length ts = length ps" by (rule get_crypto_pair_history_lengths)
next
  assume "fst (get_fiat_pair_history up tz now currency days s) = Inr (ts, ps)"
  then show "length ts = length ps" by (rule get_fiat_pair_history_lengths)
qed

lemma chart_upstream_fiat:
  "fst (get_fiat_pair_history chart_upstream 0 0 ''eur'' 7 (init_api 1000)) =
     Inr ([1000000, 2000000], [JNum (3 / 2), JNum (108 / 100)])"
  by (simp add: get_fiat_pair_history_def fiat_pair_history_try_def get_json_def session_get_def
      chart_upstream_def chart_params_def chart_body_def raise_for_status_def then_do_def
      item_timestamps_def item_prices_def eur_usd_rates_def py_gt0_def double_quotients
      dt_fromtimestamp_def init_api_def)

lemma chart_upstream_crypto_pair:
  "fst (get_crypto_pair_history chart_upstream 0 ''ethereum'' ''btc'' 7 (init_api 1000)) =
     Inr ([1000000, 2000000], [JNum 3, JNum 5])"
  by (simp add: get_crypto_pair_history_def price_series_def get_json_def session_get_def
      chart_upstream_def chart_params_def chart_body_def raise_for_status_def then_do_def
      item_timestamps_def item_prices_def double_quotients dt_fromtimestamp_def init_api_def)

lemma chart_upstream_historical:
  "fst (get_historical_data chart_upstream 0 ''bitcoin'' 7 (init_api 1000)) =
     Inr ([1000000, 2000000], [JNum 3, JNum 5])"
proof -
  have "make_request_with_retry chart_upstream (chart_url ''bitcoin'') (chart_params ''usd'' 7) 3
          (init_api 1000) =
        (Inr (chart_body [JArr [JNum 1000, JNum 3], JArr [JNum 2000, JNum 5]]),
         attempt_state \<lparr>url = chart_url ''bitcoin'', params = chart_params ''usd'' 7,
                        timeout = 15\<rparr> (init_api 1000))"
    by (rule first_attempt_success [where code = 200])
       (simp_all add: chart_upstream_def chart_params_def raise_for_status_def)
  then show ?thesis
    by (simp add: get_historical_data_def price_series_def chart_body_def then_do_def
        item_timestamps_def item_prices_def double_quotients dt_fromtimestamp_def)
qed

theorem series_lengths_agree_witness:
  "fst (get_historical_data chart_upstream 0 ''bitcoin'' 7 (init_api 1000)) =
     Inr ([1000000, 2000000], [JNum 3, JNum 5])
   \<and> fst (get_crypto_pair_history chart_upstream 0 ''ethereum'' ''btc'' 7 (init_api 1000)) =
     Inr ([1000000, 2000000], [JNum 3, JNum 5])
   \<and> fst (get_fiat_pair_history chart_upstream 0 0 ''eur'' 7 (init_api 1000)) =
     Inr ([1000000, 2000000], [JNum (3 / 2), JNum (108 / 100)])
   \<and> length [1000000, 2000000 :: int] = length [JNum 3, JNum 5]
   \<and> length [1000000, 2000000 :: int] = length [JNum (3 / 2), JNum (108 / 100)]"
  using series_lengths_agree [of chart_upstream 0 "''bitcoin''" 7 "init_api 1000"
      "[1000000, 2000000]" "[JNum 3, JNum 5]" "''ethereum''" "''btc''" 0 "''eur''"]
    series_lengths_agree [of chart_upstream 0 "''bitcoin''" 7 "init_api 1000"
      "[1000000, 2000000]" "[JNum (3 / 2), JNum (108 / 100)]" "''ethereum''" "''btc''" 0 "''eur''"]
  by (simp add: chart_upstream_fiat chart_upstream_crypto_pair chart_upstream_historical)

section \<open>Pruning\<close>

lemma mid_month_day: "dt_day (mk_datetime 2024 1 15 12 0 0) = 15"
  by (simp add: dt_day_def dt_date_def mk_datetime_def ymd2ord_def ord2ymd_def
      days_before_year_def days_before_month_def is_leap_def Let_def)

lemma cleanup_raises_before_31st:
  assumes "dt_day utcnow \<le> 30"
  shows "cleanup_old_data utcnow 30 d = (Inl (ValueError ''day is out of range for month''), d)"
  using assms by (simp add: cleanup_old_data_def dt_replace_day_def split: prod.splits)

text \<open>
  C3.  The claim: after \<open>cleanup_old_data\<close> with 30 days no row older than 30 days
  remains.  The cutoff is computed as \<^verbatim>\<open>utcnow().replace(day=utcnow().day - 30)\<close>, which
  is a valid date only on the 31st of a month: on 2024-01-15 the call raises
  \<^verbatim>\<open>ValueError\<close>, the transaction is rolled back, and the row of 2023-01-01 is still there.
\<close>

theorem prune_raises_mid_month:
  "cleanup_old_data (mk_datetime 2024 1 15 12 0 0) 30 stale_db =
     (Inl (ValueError ''day is out of range for month''), stale_db)
   \<and> coin_prices stale_db = [quote_row ''bitcoin'' 100 (mk_datetime 2023 1 1 0 0 0)]
   \<and> mk_datetime 2023 1 1 0 0 0 < mk_datetime 2024 1 15 12 0 0 - timedelta_days 30"
  by (simp add: cleanup_raises_before_31st mid_month_day)
     (simp add: stale_db_def mk_datetime_def ymd2ord_def days_before_year_def
        days_before_month_def is_leap_def timedelta_days_def Let_def)

section \<open>Rate limiter slots\<close>

text \<open>
  A request sent through \<open>make_request_with_retry\<close> does take a slot: after
  \<open>rate_limit_delay\<close> at least \<open>min_request_interval\<close> has passed since the last slot.
\<close>

lemma rate_limit_delay_spacing:
  "last_request_time s + min_request_interval \<le> last_request_time (rate_limit_delay s)
   \<and> clock (rate_limit_delay s) = last_request_time (rate_limit_delay s)"
  by (simp add: rate_limit_delay_def sleep_def Let_def)

lemma get_json_state:
  "snd (get_json up req s) = s\<lparr>sent := Suc (sent s), trace := trace s @ [Get req]\<rparr>"
  by (simp add: get_json_def session_get_def)

lemma crypto_pair_history_takes_no_slot:
  "snd (get_crypto_pair_history up tz base_coin quote_currency days s) =
     s\<lparr>sent := Suc (sent s),
       trace := trace s @ [Get \<lparr>url = chart_url base_coin,
                                 params = chart_params quote_currency days, timeout = 15\<rparr>]\<rparr>"
  by (simp add: get_crypto_pair_history_def get_json_def session_get_def split: prod.splits)

lemma coin_info_takes_no_slot:
  "clock (snd (get_coin_info up coin_id s)) = clock s
   \<and> last_request_time (snd (get_coin_info up coin_id s)) = last_request_time s
   \<and> sent (snd (get_coin_info up coin_id s)) = Suc (sent s)"
  by (simp add: get_coin_info_def get_json_def session_get_def Let_def
      split: prod.splits sum.splits)

text \<open>
  C7.  The claim: every outbound request first takes a rate limiter slot.  The pair-history
  and coin-detail requests call \<^verbatim>\<open>session.get\<close> directly: a pair-history request that
  follows a governed request is sent at the same instant, with no sleep in between.
\<close>

theorem pair_history_skips_rate_limiter:
  "trace (snd (get_crypto_pair_history chart_upstream 0 ''ethereum'' ''btc'' 7
          (snd (get_historical_data chart_upstream 0 ''bitcoin'' 7 (init_api 1000))))) =
     [Get \<lparr>url = chart_url ''bitcoin'', params = chart_params ''usd'' 7, timeout = 15\<rparr>,
      Get \<lparr>url = chart_url ''ethereum'', params = chart_params ''btc'' 7, timeout = 15\<rparr>]
   \<and> last_request_time (snd (get_historical_data chart_upstream 0 ''bitcoin'' 7 (init_api 1000))) = 1000
   \<and> clock (snd (get_crypto_pair_history chart_upstream 0 ''ethereum'' ''btc'' 7
          (snd (get_historical_data chart_upstream 0 ''bitcoin'' 7 (init_api 1000))))) = 1000"
proof -
  have first: "make_request_with_retry chart_upstream (chart_url ''bitcoin'') (chart_params ''usd'' 7) 3
          (init_api 1000) =
        (Inr (chart_body [JArr [JNum 1000, JNum 3], JArr [JNum 2000, JNum 5]]),
         attempt_state \<lparr>url = chart_url ''bitcoin'', params = chart_params ''usd'' 7,
                        timeout = 15\<rparr> (init_api 1000))"
    by (rule first_attempt_success [where code = 200])
       (simp_all add: chart_upstream_def chart_params_def raise_for_status_def)
  have governed: "snd (get_historical_data chart_upstream 0 ''bitcoin'' 7 (init_api 1000)) =
      \<lparr>clock = 1000, last_request_time = 1000, sent = 1,
       trace = [Get \<lparr>url = chart_url ''bitcoin'', params = chart_params ''usd'' 7, timeout = 15\<rparr>]\<rparr>"
  proof -
    have "snd (get_historical_data chart_upstream 0 ''bitcoin'' 7 (init_api 1000)) =
        attempt_state \<lparr>url = chart_url ''bitcoin'', params = chart_params ''usd'' 7,
                        timeout = 15\<rparr> (init_api 1000)"
      by (simp add: get_historical_data_def first split: sum.splits)
    then show ?thesis
      by (simp add: attempt_state_def session_get_def rate_limit_delay_def init_api_def
          min_request_interval_def Let_def)
  qed
  show ?thesis
    by (simp add: governed crypto_pair_history_takes_no_slot)
qed

section \<open>Latest reads\<close>

text \<open>
  C6.  The claim: for spot quotes and pair rates, the latest read returns for each key the
  row with the greatest timestamp.  \<open>get_latest_trading_pairs\<close> reads all rows without an
  order and keeps, for each pair, the row the query returns last: when the query returns
  the newer row first, the older row is what it answers.
\<close>

theorem unordered_pairs_read_returns_older_row:
  "map_of (get_latest_trading_pairs reordered_pairs_db) ''ETH/BTC'' =
     Some \<lparr>price = 5 / 100, change_24h = 0, base = ''Ethereum'', quote = ''Bitcoin''\<rparr>
   \<and> trading_pairs reordered_pairs_db =
       [pair_row ''ETH/BTC'' (6 / 100) (mk_datetime 2024 1 15 12 0 0),
        pair_row ''ETH/BTC'' (5 / 100) (mk_datetime 2024 1 15 11 0 0)]
   \<and> mk_datetime 2024 1 15 11 0 0 < mk_datetime 2024 1 15 12 0 0"
  by (simp add: get_latest_trading_pairs_def reordered_pairs_db_def empty_db_def pair_row_def
      mk_datetime_def)

text \<open>
  The spot-quote read does order by timestamp: the row it finds for a key is a row of that
  key with the greatest timestamp, and it finds none only when the key has no row.
\<close>

lemma latest_coin_price_None:
  "latest_coin_price d c = None \<longleftrightarrow> (\<forall>r \<in> set (coin_prices d). cp_coin_id r \<noteq> c)"
proof -
  have "sort_key (\<lambda>r. - cp_timestamp r) (filter (\<lambda>r. cp_coin_id r = c) (coin_prices d)) = []
        \<longleftrightarrow> filter (\<lambda>r. cp_coin_id r = c) (coin_prices d) = []"
    by (metis set_sort set_empty)
  then show ?thesis
    by (auto simp: latest_coin_price_def filter_empty_conv split: list.splits)
qed

lemma latest_coin_price_Some:
  assumes "latest_coin_price d c = Some r"
  shows "r \<in> set (coin_prices d) \<and> cp_coin_id r = c
       \<and> (\<forall>r' \<in> set (coin_prices d). cp_coin_id r' = c \<longrightarrow> cp_timestamp r' \<le> cp_timestamp r)"
proof -
  let ?rows = "filter (\<lambda>r. cp_coin_id r = c) (coin_prices d)"
  let ?sorted = "sort_key (\<lambda>r. - cp_timestamp r) ?rows"
  from assms obtain rest where s: "?sorted = r # rest"
    by (auto simp: latest_coin_price_def split: list.splits)
  have "r \<in> set ?sorted" using s by simp
  then have mem: "r \<in> set ?rows" by simp
  have "sorted (map (\<lambda>r. - cp_timestamp r) ?sorted)" by (rule sorted_sort_key)
  then have "\<forall>x \<in> set rest. - cp_timestamp r \<le> - cp_timestamp x"
    unfolding s by simp
  then have le: "\<forall>x \<in> set ?sorted. cp_timestamp x \<le> cp_timestamp r"
    unfolding s by auto
  have "\<forall>x \<in> set ?rows. cp_timestamp x \<le> cp_timestamp r"
    using le by simp
  with mem show ?thesis by auto
qed

section \<open>The freshness-aware loader\<close>

lemma timestamp_roundtrip: "dt_fromtimestamp tz (dt_timestamp tz t) = t"
proof -
  have "real_of_int (t - tz) / 1000000 * 1000000 = real_of_int (t - tz)"
    by simp
  then have "round (real_of_int (t - tz) / 1000000 * 1000000) = t - tz"
    by (simp only: round_of_int)
  then show ?thesis
    by (simp only: dt_fromtimestamp_def dt_timestamp_def)
qed

lemma recent_cached_quote: "recent_data tz now (cached_quote tz r) = fresh now r"
  by (simp add: recent_data_def cached_quote_def dict_get_def fresh_def timestamp_roundtrip)

lemma map_of_latest_prices_step:
  "map_of (latest_prices_step tz d c acc) k =
     (case latest_entry tz d [c] k of Some v \<Rightarrow> Some v | None \<Rightarrow> map_of acc k)"
  by (cases k; cases "latest_coin_price d c")
     (auto simp: latest_prices_step_def latest_entry_def update_conv')

lemma latest_entry_Cons:
  "latest_entry tz d (c # cs) k =
     (case latest_entry tz d cs k of Some v \<Rightarrow> Some v | None \<Rightarrow> latest_entry tz d [c] k)"
  by (cases k) (auto simp: latest_entry_def split: option.splits)

lemma map_of_fold_latest:
  "map_of (fold (latest_prices_step tz d) coin_ids acc) k =
     (case latest_entry tz d coin_ids k of Some v \<Rightarrow> Some v | None \<Rightarrow> map_of acc k)"
proof (induction coin_ids arbitrary: acc)
  case Nil
  then show ?case by (cases k) (simp_all add: latest_entry_def)
next
  case (Cons c cs)
  show ?case
    by (simp add: Cons.IH map_of_latest_prices_step latest_entry_Cons [of tz d c cs k]
             split: option.splits)
qed

lemma distinct_fold_latest:
  "distinct (map fst acc) \<Longrightarrow> distinct (map fst (fold (latest_prices_step tz d) coin_ids acc))"
proof (induction coin_ids arbitrary: acc)
  case Nil
  then show ?case by simp
next
  case (Cons c cs)
  have "distinct (map fst (latest_prices_step tz d c acc))"
    using Cons.prems by (simp add: latest_prices_step_def distinct_update split: option.splits)
  then show ?case
    using Cons.IH by simp
qed

lemma cached_entries:
  "(k, v) \<in> set (get_latest_coin_prices tz d coin_ids) \<longleftrightarrow> latest_entry tz d coin_ids k = Some v"
proof -
  have "distinct (map fst (get_latest_coin_prices tz d coin_ids))"
    unfolding get_latest_coin_prices_def by (rule distinct_fold_latest) simp
  then have "(k, v) \<in> set (get_latest_coin_prices tz d coin_ids)
             \<longleftrightarrow> map_of (get_latest_coin_prices tz d coin_ids) k = Some v"
    by simp
  also have "\<dots> \<longleftrightarrow> latest_entry tz d coin_ids k = Some v"
    unfolding get_latest_coin_prices_def map_of_fold_latest
    by (simp split: option.splits)
  finally show ?thesis .
qed

lemma any_recent_cached:
  assumes "\<And>item. item \<in> set al \<Longrightarrow> \<exists>r. snd item = cached_quote tz r"
  shows "any_recent tz now al = Inr (\<exists>item \<in> set al. recent_data tz now (snd item))"
  using assms
proof (induction al)
  case Nil
  then show ?case by simp
next
  case (Cons item al)
  obtain r where r: "snd item = cached_quote tz r"
    using Cons.prems [of item] by auto
  have key: "''last_updated_at'' \<in> set (map fst (snd item))"
    by (simp add: r cached_quote_def)
  have val: "py_fromtimestamp tz (dict_get (snd item) ''last_updated_at'' JNull) = Inr (cp_timestamp r)"
    by (simp add: r cached_quote_def dict_get_def py_fromtimestamp_def timestamp_roundtrip)
  have rec: "recent_data tz now (snd item) = (now - cp_timestamp r < timedelta_minutes 2)"
    by (simp add: r recent_cached_quote fresh_def)
  have IH: "any_recent tz now al = Inr (\<exists>item \<in> set al. recent_data tz now (snd item))"
    using Cons.IH Cons.prems by simp
  show ?case
    using key by (simp add: val rec IH then_do_def Let_def)
qed

lemma some_fresh_entries:
  "some_fresh now d coin_ids \<longleftrightarrow>
   (\<exists>item \<in> set (get_latest_coin_prices tz d coin_ids). recent_data tz now (snd item))"
proof
  assume "some_fresh now d coin_ids"
  then obtain c r where c: "c \<in> set coin_ids" and l: "latest_coin_price d c = Some r" and f: "fresh now r"
    by (auto simp: some_fresh_def split: option.splits)
  then have "(JStr c, cached_quote tz r) \<in> set (get_latest_coin_prices tz d coin_ids)"
    by (simp add: cached_entries latest_entry_def)
  with f show "\<exists>item \<in> set (get_latest_coin_prices tz d coin_ids). recent_data tz now (snd item)"
    by (intro bexI [of _ "(JStr c, cached_quote tz r)"]) (simp_all add: recent_cached_quote)
next
  assume "\<exists>item \<in> set (get_latest_coin_prices tz d coin_ids). recent_data tz now (snd item)"
  then obtain k v where m: "(k, v) \<in> set (get_latest_coin_prices tz d coin_ids)"
    and rv: "recent_data tz now v" by auto
  from m have "latest_entry tz d coin_ids k = Some v" by (simp add: cached_entries)
  then obtain c r where "c \<in> set coin_ids" "latest_coin_price d c = Some r" "v = cached_quote tz r"
    by (auto simp: latest_entry_def split: json.splits if_splits)
  with rv have "c \<in> set coin_ids" and "latest_coin_price d c = Some r" and "fresh now r"
    by (simp_all add: recent_cached_quote)
  then show "some_fresh now d coin_ids"
    unfolding some_fresh_def by (intro bexI [of _ c]) simp_all
qed

lemma cache_lookup_eq:
  assumes "use_database a" and "db a = Some d"
  shows "cache_lookup tz now coin_ids a =
           Inr (if some_fresh now d coin_ids then Some (get_latest_coin_prices tz d coin_ids) else None)"
proof -
  let ?cached = "get_latest_coin_prices tz d coin_ids"
  have shape: "\<And>item. item \<in> set ?cached \<Longrightarrow> \<exists>r. snd item = cached_quote tz r"
  proof -
    fix item assume "item \<in> set ?cached"
    then have "latest_entry tz d coin_ids (fst item) = Some (snd item)"
      using cached_entries [of "fst item" "snd item"] by simp
    then obtain r where "cached_quote tz r = snd item"
      by (auto simp: latest_entry_def split: json.splits if_splits)
    then show "\<exists>r. snd item = cached_quote tz r"
      by metis
  qed
  have rec: "any_recent tz now ?cached = Inr (some_fresh now d coin_ids)"
    using any_recent_cached [OF shape] some_fresh_entries [of now d coin_ids tz] by simp
  have empty: "?cached = [] \<Longrightarrow> \<not> some_fresh now d coin_ids"
    using some_fresh_entries [of now d coin_ids tz] by simp
  show ?thesis
    using assms empty by (auto simp: cache_lookup_def rec then_do_def Let_def)
qed

lemma cache_lookup_disabled:
  assumes "\<not> use_database a \<or> db a = None"
  shows "cache_lookup tz now coin_ids a = Inr None"
  using assms by (auto simp: cache_lookup_def split: bool.splits option.splits)

lemma load_after_miss:
  assumes "cache_lookup tz now coin_ids a = Inr None"
  shows "api (snd (load_current_prices up tz now utcnow coin_ids a)) =
           snd (get_current_prices up coin_ids (api a))
       \<and> fst (load_current_prices up tz now utcnow coin_ids a) =
           (case fst (get_current_prices up coin_ids (api a)) of Inl e \<Rightarrow> [] | Inr prices \<Rightarrow> prices)"
  using assms
  by (auto simp: load_current_prices_def Let_def
           split: prod.splits sum.splits bool.splits option.splits)

text \<open>
  C1, as amended.  With the cache enabled: when every requested key of a non-empty request
  has a fresh latest row, the loader returns the cached rows and leaves the client untouched;
  the loader returns cached rows only if at least one requested key has a fresh latest row;
  and when no requested key has a fresh latest row (each is missing or stale), the loader
  calls \<open>get_current_prices\<close> on the entire list of requested ids and returns what it
  returns (the empty dictionary when it raises).
\<close>

theorem loader_cache_decision:
  assumes "use_database a" and "db a = Some d"
  shows "(cache_usable now d coin_ids \<and> coin_ids \<noteq> [] \<longrightarrow>
            load_current_prices up tz now utcnow coin_ids a = (get_latest_coin_prices tz d coin_ids, a))
       \<and> (cache_lookup tz now coin_ids a = Inr (Some cached) \<longrightarrow> some_fresh now d coin_ids)
       \<and> (\<not> some_fresh now d coin_ids \<longrightarrow>
            api (snd (load_current_prices up tz now utcnow coin_ids a)) =
              snd (get_current_prices up coin_ids (api a))
          \<and> fst (load_current_prices up tz now utcnow coin_ids a) =
              (case fst (get_current_prices up coin_ids (api a)) of
                 Inl e \<Rightarrow> [] | Inr prices \<Rightarrow> prices))"
proof -
  have served: "load_current_prices up tz now utcnow coin_ids a = (get_latest_coin_prices tz d coin_ids, a)"
    if "cache_usable now d coin_ids \<and> coin_ids \<noteq> []"
  proof -
    from that have "some_fresh now d coin_ids"
      by (cases coin_ids) (auto simp: cache_usable_def some_fresh_def)
    then show ?thesis
      by (simp add: load_current_prices_def cache_lookup_eq [OF assms])
  qed
  have only_if: "some_fresh now d coin_ids" if "cache_lookup tz now coin_ids a = Inr (Some cached)"
    using that by (simp add: cache_lookup_eq [OF assms] split: if_splits)
  have fetched: "api (snd (load_current_prices up tz now utcnow coin_ids a)) =
              snd (get_current_prices up coin_ids (api a))
          \<and> fst (load_current_prices up tz now utcnow coin_ids a) =
              (case fst (get_current_prices up coin_ids (api a)) of
                 Inl e \<Rightarrow> [] | Inr prices \<Rightarrow> prices)"
    if "\<not> some_fresh now d coin_ids"
  proof -
    from that have "cache_lookup tz now coin_ids a = Inr None"
      by (simp add: cache_lookup_eq [OF assms])
    then show ?thesis by (rule load_after_miss)
  qed
  show ?thesis
    using served only_if fetched by blast
qed

lemma half_minute: "mk_datetime 2024 1 15 12 0 30 - mk_datetime 2024 1 15 12 0 0 = 30000000"
  by (simp add: mk_datetime_def)

lemma partial_db_latest:
  "latest_coin_price partial_db ''bitcoin'' = Some (quote_row ''bitcoin'' 100 (mk_datetime 2024 1 15 12 0 0))"
  "latest_coin_price partial_db ''ethereum'' = None"
  by (simp_all add: latest_coin_price_def partial_db_def empty_db_def quote_row_def)

lemma full_db_latest:
  "latest_coin_price full_db ''bitcoin'' = Some (quote_row ''bitcoin'' 100 (mk_datetime 2024 1 15 12 0 0))"
  "latest_coin_price full_db ''ethereum'' = Some (quote_row ''ethereum'' 50 (mk_datetime 2024 1 15 12 0 0))"
  by (simp_all add: latest_coin_price_def full_db_def empty_db_def quote_row_def)

lemma stale_db_latest:
  "latest_coin_price stale_db ''bitcoin'' = Some (quote_row ''bitcoin'' 100 (mk_datetime 2023 1 1 0 0 0))"
  by (simp add: latest_coin_price_def stale_db_def empty_db_def quote_row_def)

lemma fresh_after_half_minute:
  "fresh (mk_datetime 2024 1 15 12 0 30) (quote_row c p (mk_datetime 2024 1 15 12 0 0))"
  by (simp add: fresh_def quote_row_def half_minute timedelta_minutes_def)

lemma stale_after_a_year:
  "\<not> fresh (mk_datetime 2024 1 15 12 0 30) (quote_row c p (mk_datetime 2023 1 1 0 0 0))"
  by (simp add: fresh_def quote_row_def timedelta_minutes_def mk_datetime_def ymd2ord_def
      days_before_year_def days_before_month_def is_leap_def Let_def)

text \<open>
  C1 as stated fails: with a fresh row for bitcoin and no row for ethereum, a request for both
  is answered from the cache, with the bitcoin row alone and no call to the client.
\<close>

theorem partial_coverage_is_served:
  "load_current_prices markets_upstream 0 (mk_datetime 2024 1 15 12 0 30)
     (mk_datetime 2024 1 15 12 0 30) [''bitcoin'', ''ethereum''] (app_with partial_db) =
     ([(JStr ''bitcoin'', cached_quote 0 (quote_row ''bitcoin'' 100 (mk_datetime 2024 1 15 12 0 0)))],
      app_with partial_db)
   \<and> \<not> cache_usable (mk_datetime 2024 1 15 12 0 30) partial_db [''bitcoin'', ''ethereum'']"
proof -
  have a: "use_database (app_with partial_db)" "db (app_with partial_db) = Some partial_db"
    by (simp_all add: app_with_def)
  have f: "some_fresh (mk_datetime 2024 1 15 12 0 30) partial_db [''bitcoin'', ''ethereum'']"
    by (simp add: some_fresh_def partial_db_latest fresh_after_half_minute)
  have g: "get_latest_coin_prices 0 partial_db [''bitcoin'', ''ethereum''] =
     [(JStr ''bitcoin'', cached_quote 0 (quote_row ''bitcoin'' 100 (mk_datetime 2024 1 15 12 0 0)))]"
    by (simp add: get_latest_coin_prices_def latest_prices_step_def partial_db_latest)
  show ?thesis
    by (simp add: load_current_prices_def cache_lookup_eq [OF a] f g cache_usable_def
        partial_db_latest)
qed

lemma markets_upstream_prices:
  "get_current_prices markets_upstream [''bitcoin''] (init_api 1000) =
     (Inr [(JStr ''bitcoin'',
            [(''usd'', JNum 7), (''usd_24h_change'', JNum 0), (''usd_24h_vol'', JNum 0),
             (''usd_market_cap'', JNum 0), (''last_updated_at'', JStr [])])],
      \<lparr>clock = 1000, last_request_time = 1000, sent = 1,
       trace = [Get \<lparr>url = base_url @ ''/coins/markets'',
                      params = [(''vs_currency'', JStr ''usd''), (''ids'', JStr ''bitcoin''),
                                (''order'', JStr ''market_cap_desc''), (''per_page'', JNum 1),
                                (''page'', JNum 1), (''sparkline'', JBool False),
                                (''price_change_percentage'', JStr ''24h'')],
                      timeout = 15\<rparr>]\<rparr>)"
proof -
  let ?ps = "[(''vs_currency'', JStr ''usd''), (''ids'', JStr ''bitcoin''),
              (''order'', JStr ''market_cap_desc''), (''per_page'', JNum 1),
              (''page'', JNum 1), (''sparkline'', JBool False),
              (''price_change_percentage'', JStr ''24h'')]"
  have first: "make_request_with_retry markets_upstream (base_url @ ''/coins/markets'') ?ps 3 (init_api 1000) =
      (Inr (JArr [JObj [(''id'', JStr ''bitcoin''), (''current_price'', JNum 7)]]),
       attempt_state \<lparr>url = base_url @ ''/coins/markets'', params = ?ps, timeout = 15\<rparr> (init_api 1000))"
    by (rule first_attempt_success [where code = 200])
       (simp_all add: markets_upstream_def raise_for_status_def)
  have st: "attempt_state \<lparr>url = base_url @ ''/coins/markets'', params = ?ps, timeout = 15\<rparr> (init_api 1000) =
      \<lparr>clock = 1000, last_request_time = 1000, sent = 1,
       trace = [Get \<lparr>url = base_url @ ''/coins/markets'', params = ?ps, timeout = 15\<rparr>]\<rparr>"
    by (simp add: attempt_state_def session_get_def rate_limit_delay_def init_api_def
        min_request_interval_def Let_def)
  show ?thesis
    by (simp add: get_current_prices_def first st then_do_def markets_entry_def)
qed

theorem loader_cache_decision_witness:
  "load_current_prices markets_upstream 0 (mk_datetime 2024 1 15 12 0 30)
     (mk_datetime 2024 1 15 12 0 30) [''bitcoin'', ''ethereum''] (app_with full_db) =
     (get_latest_coin_prices 0 full_db [''bitcoin'', ''ethereum''], app_with full_db)
   \<and> some_fresh (mk_datetime 2024 1 15 12 0 30) full_db [''bitcoin'', ''ethereum'']
   \<and> api (snd (load_current_prices markets_upstream 0 (mk_datetime 2024 1 15 12 0 30)
                  (mk_datetime 2024 1 15 12 0 30) [''bitcoin''] (app_with stale_db))) =
       snd (get_current_prices markets_upstream [''bitcoin''] (init_api 1000))
   \<and> fst (load_current_prices markets_upstream 0 (mk_datetime 2024 1 15 12 0 30)
            (mk_datetime 2024 1 15 12 0 30) [''bitcoin''] (app_with stale_db)) =
       [(JStr ''bitcoin'',
         [(''usd'', JNum 7), (''usd_24h_change'', JNum 0), (''usd_24h_vol'', JNum 0),
          (''usd_market_cap'', JNum 0), (''last_updated_at'', JStr [])])]"
proof -
  have usable: "cache_usable (mk_datetime 2024 1 15 12 0 30) full_db [''bitcoin'', ''ethereum'']"
    by (simp add: cache_usable_def full_db_latest fresh_after_half_minute)
  have f: "some_fresh (mk_datetime 2024 1 15 12 0 30) full_db [''bitcoin'', ''ethereum'']"
    by (simp add: some_fresh_def full_db_latest fresh_after_half_minute)
  have a: "use_database (app_with full_db)" "db (app_with full_db) = Some full_db"
    by (simp_all add: app_with_def)
  have hit: "cache_lookup 0 (mk_datetime 2024 1 15 12 0 30) [''bitcoin'', ''ethereum''] (app_with full_db) =
      Inr (Some (get_latest_coin_prices 0 full_db [''bitcoin'', ''ethereum'']))"
    by (simp add: cache_lookup_eq [OF a] f)
  have stale: "\<not> some_fresh (mk_datetime 2024 1 15 12 0 30) stale_db [''bitcoin'']"
    by (simp add: some_fresh_def stale_db_latest stale_after_a_year)
  have b: "use_database (app_with stale_db)" "db (app_with stale_db) = Some stale_db"
    by (simp_all add: app_with_def)
  have c: "api (app_with stale_db) = init_api 1000"
    by (simp add: app_with_def)
  show ?thesis
    using loader_cache_decision [where a = "app_with full_db" and d = full_db
        and now = "mk_datetime 2024 1 15 12 0 30" and coin_ids = "[''bitcoin'', ''ethereum'']"
        and up = markets_upstream and tz = 0 and utcnow = "mk_datetime 2024 1 15 12 0 30"
        and cached = "get_latest_coin_prices 0 full_db [''bitcoin'', ''ethereum'']", OF a]
      loader_cache_decision [where a = "app_with stale_db" and d = stale_db
        and now = "mk_datetime 2024 1 15 12 0 30" and coin_ids = "[''bitcoin'']"
        and up = markets_upstream and tz = 0 and utcnow = "mk_datetime 2024 1 15 12 0 30"
        and cached = "[]", OF b]
    by (simp add: usable hit stale c markets_upstream_prices)
qed

end
